theory Spec2Isabelle
  imports Main "HOL-Library.Word" "HOL-Library.AList"
begin

section \<open>JavaScript strings\<close>

text \<open>
  A JavaScript string is a sequence of 16-bit code units. Literals of the source are
  written \<open>str ''...''\<close>; all of them are ASCII.
\<close>

type_synonym jschar = "16 word"
type_synonym jsstring = "jschar list"

definition str :: "string \<Rightarrow> jsstring" where
  "str s = map of_char s"

datatype js_error = TypeError

text \<open>
  The code units that \<open>String.prototype.trim\<close> and \<open>parseInt\<close> strip: WhiteSpace
  (TAB, VT, FF, ZWNBSP and the category Zs) and LineTerminator (LF, CR, LS, PS).
\<close>

definition is_ws :: "jschar \<Rightarrow> bool" where
  "is_ws c = (c = 0x0009 \<or> c = 0x000A \<or> c = 0x000B \<or> c = 0x000C \<or> c = 0x000D \<or> c = 0x0020
     \<or> c = 0x00A0 \<or> c = 0x1680 \<or> (0x2000 \<le> c \<and> c \<le> 0x200A) \<or> c = 0x2028 \<or> c = 0x2029
     \<or> c = 0x202F \<or> c = 0x205F \<or> c = 0x3000 \<or> c = 0xFEFF)"

definition trim :: "jsstring \<Rightarrow> jsstring" where
  "trim s = rev (dropWhile is_ws (rev (dropWhile is_ws s)))"

text \<open>\<open>v.trim()\<close> on a value that is a string or \<open>undefined\<close>: a TypeError on \<open>undefined\<close>.\<close>

definition trim_method :: "jsstring option \<Rightarrow> js_error + jsstring" where
  "trim_method v = (case v of None \<Rightarrow> Inl TypeError | Some s \<Rightarrow> Inr (trim s))"

text \<open>ToBoolean and \<open>typeof\<close> of a value that is a string or \<open>undefined\<close>.\<close>

definition truthy_opt :: "jsstring option \<Rightarrow> bool" where
  "truthy_opt v = (case v of None \<Rightarrow> False | Some s \<Rightarrow> s \<noteq> [])"

definition typeof_opt :: "jsstring option \<Rightarrow> jsstring" where
  "typeof_opt v = (case v of None \<Rightarrow> str ''undefined'' | Some s \<Rightarrow> str ''string'')"

text \<open>\<open>v || d\<close> for a string default \<open>d\<close>.\<close>

definition or_default :: "jsstring option \<Rightarrow> jsstring \<Rightarrow> jsstring" where
  "or_default v d = (if truthy_opt v then (case v of Some s \<Rightarrow> s | None \<Rightarrow> d) else d)"

text \<open>\<open>xs.includes(v)\<close> on an array of strings.\<close>

definition array_includes :: "jsstring list \<Rightarrow> jsstring option \<Rightarrow> bool" where
  "array_includes xs v = (case v of None \<Rightarrow> False | Some s \<Rightarrow> s \<in> set xs)"

fun join :: "jsstring \<Rightarrow> jsstring list \<Rightarrow> jsstring" where
  "join sep [] = []"
| "join sep [x] = x"
| "join sep (x # y # ys) = x @ sep @ join sep (y # ys)"

text \<open>
  \<open>s.replace(pat, rep)\<close> with a string pattern: only the first occurrence is replaced.
  (The replacement strings of the source contain no \<open>$\<close>.)
\<close>

fun replace_first :: "jsstring \<Rightarrow> jsstring \<Rightarrow> jsstring \<Rightarrow> jsstring" where
  "replace_first pat rep [] = (if pat = [] then rep else [])"
| "replace_first pat rep (c # cs) =
     (if take (length pat) (c # cs) = pat then rep @ drop (length pat) (c # cs)
      else c # replace_first pat rep cs)"

subsection \<open>parseInt\<close>

text \<open>
  \<open>parseInt(s)\<close> without a radix: leading white space is skipped, then an optional sign,
  then an optional \<open>0x\<close>/\<open>0X\<close> (radix 16, else 10), then the longest prefix of digits
  of the radix; \<open>None\<close> is NaN. The result is the mathematical integer; the double that
  JavaScript rounds it to compares with 1 and with 200 as the integer does.
\<close>

definition digit_val :: "jschar \<Rightarrow> nat" where
  "digit_val c =
     (let n = unat c in
      if 0x30 \<le> n \<and> n \<le> 0x39 then n - 0x30
      else if 0x61 \<le> n \<and> n \<le> 0x7A then n - 0x61 + 10
      else if 0x41 \<le> n \<and> n \<le> 0x5A then n - 0x41 + 10
      else 36)"

definition radix_digit :: "nat \<Rightarrow> jschar \<Rightarrow> bool" where
  "radix_digit R c = (digit_val c < R)"

definition parseInt :: "jsstring \<Rightarrow> int option" where
  "parseInt inputString =
     (let S = dropWhile is_ws inputString;
          sign = (if take 1 S = str ''-'' then - 1 else 1 :: int);
          S = (if take 1 S = str ''+'' \<or> take 1 S = str ''-'' then drop 1 S else S);
          hex = (take 2 S = str ''0x'' \<or> take 2 S = str ''0X'');
          R = (if hex then 16 else 10);
          S = (if hex then drop 2 S else S);
          Z = takeWhile (radix_digit R) S
      in if Z = [] then None
         else Some (sign * int (foldl (\<lambda>a c. a * R + digit_val c) 0 Z)))"

text \<open>\<open>parseInt(v)\<close> of a value that is a string or \<open>undefined\<close> (ToString first).\<close>

definition parseInt_opt :: "jsstring option \<Rightarrow> int option" where
  "parseInt_opt v = (case v of None \<Rightarrow> parseInt (str ''undefined'') | Some s \<Rightarrow> parseInt s)"

text \<open>\<open>/^[A-Z]{2}$/.test(s)\<close>: without the multiline flag, \<open>$\<close> is the end of the input.\<close>

definition is_upper :: "jschar \<Rightarrow> bool" where
  "is_upper c = (0x41 \<le> c \<and> c \<le> 0x5A)"

definition country_regex_test :: "jsstring \<Rightarrow> bool" where
  "country_regex_test s = (case s of [a, b] \<Rightarrow> is_upper a \<and> is_upper b | _ \<Rightarrow> False)"

definition country_regex_test_opt :: "jsstring option \<Rightarrow> bool" where
  "country_regex_test_opt v =
     (case v of None \<Rightarrow> country_regex_test (str ''undefined'') | Some s \<Rightarrow> country_regex_test s)"

section \<open>The search route: constants\<close>

definition ITUNES_BASE_URL :: jsstring where
  "ITUNES_BASE_URL = str ''https://itunes.apple.com''"

definition ITUNES_SEARCH_ENDPOINT :: jsstring where
  "ITUNES_SEARCH_ENDPOINT = ITUNES_BASE_URL @ str ''/search''"

definition VALID_MEDIA_TYPES :: "jsstring list" where
  "VALID_MEDIA_TYPES =
     [str ''all'', str ''movie'', str ''podcast'', str ''music'', str ''musicVideo'',
      str ''audiobook'', str ''shortFilm'', str ''tvShow'', str ''software'', str ''ebook'']"

definition MEDIA_ENTITIES :: "(jsstring \<times> jsstring list) list" where
  "MEDIA_ENTITIES =
     [(str ''movie'', [str ''movieArtist'', str ''movie'']),
      (str ''podcast'', [str ''podcastAuthor'', str ''podcast'']),
      (str ''music'', [str ''musicArtist'', str ''musicTrack'', str ''album'', str ''musicVideo'',
                       str ''mix'', str ''song'']),
      (str ''musicVideo'', [str ''musicArtist'', str ''musicVideo'']),
      (str ''audiobook'', [str ''audiobookAuthor'', str ''audiobook'']),
      (str ''shortFilm'', [str ''shortFilmArtist'', str ''shortFilm'']),
      (str ''tvShow'', [str ''tvEpisode'', str ''tvSeason'']),
      (str ''software'', [str ''software'', str ''iPadSoftware'', str ''macSoftware'']),
      (str ''ebook'', [str ''ebook'']),
      (str ''all'', [str ''movie'', str ''album'', str ''allArtist'', str ''podcast'',
                     str ''musicVideo'', str ''mix'', str ''audiobook'', str ''tvSeason'',
                     str ''allTrack''])]"

text \<open>
  \<open>MEDIA_ENTITIES[mediaType] || []\<close> followed by \<open>.includes\<close>: an own key gives its array;
  a name inherited from \<open>Object.prototype\<close> gives a function (or, for \<open>__proto__\<close>, the
  prototype object), which is truthy and has no \<open>includes\<close>, so the call raises a
  TypeError; any other name gives \<open>[]\<close>.
\<close>

definition Object_prototype_names :: "jsstring list" where
  "Object_prototype_names =
     [str ''constructor'', str ''hasOwnProperty'', str ''isPrototypeOf'',
      str ''propertyIsEnumerable'', str ''toLocaleString'', str ''toString'', str ''valueOf'',
      str ''__proto__'', str ''__defineGetter__'', str ''__defineSetter__'',
      str ''__lookupGetter__'', str ''__lookupSetter__'']"

definition validEntities_of :: "jsstring \<Rightarrow> js_error + jsstring list" where
  "validEntities_of mediaType =
     (case map_of MEDIA_ENTITIES mediaType of
        Some es \<Rightarrow> Inr es
      | None \<Rightarrow> if mediaType \<in> set Object_prototype_names then Inl TypeError else Inr [])"

section \<open>validateSearchParams\<close>

text \<open>
  The six query parameters the handler reads from \<open>req.query\<close>; each is absent
  (\<open>undefined\<close>) or a string. (A parameter given twice or with brackets, which the
  query parser delivers as an array or an object, is outside this model.)
\<close>

record params =
  p_term :: "jsstring option"
  p_media :: "jsstring option"
  p_limit :: "jsstring option"
  p_country :: "jsstring option"
  p_entity :: "jsstring option"
  p_explicit :: "jsstring option"

record validation =
  isValid :: bool
  errors :: "jsstring list"

definition msg_term :: jsstring where
  "msg_term = str ''Search term is required and must be a non-empty string''"

definition msg_media :: jsstring where
  "msg_media = str ''Invalid media type. Valid types: '' @ join (str '', '') VALID_MEDIA_TYPES"

definition msg_limit :: jsstring where
  "msg_limit = str ''Limit must be a number between 1 and 200''"

definition msg_country :: jsstring where
  "msg_country = str ''Country must be a valid 2-letter country code (e.g., US, CA, GB)''"

text \<open>
  \<open>!params.term || typeof params.term !== 'string' || params.term.trim().length === 0\<close>,
  evaluated left to right; the method call is reached only when both tests before it fail.
\<close>

definition term_missing :: "jsstring option \<Rightarrow> js_error + bool" where
  "term_missing t =
     (if \<not> truthy_opt t then Inr True
      else if typeof_opt t \<noteq> str ''string'' then Inr True
      else (case trim_method t of Inl e \<Rightarrow> Inl e | Inr s \<Rightarrow> Inr (length s = 0)))"

definition limit_out_of_range :: "int option \<Rightarrow> bool" where
  "limit_out_of_range limit = (case limit of None \<Rightarrow> True | Some n \<Rightarrow> n < 1 \<or> n > 200)"

definition validateSearchParams :: "params \<Rightarrow> js_error + validation" where
  "validateSearchParams p =
     (case term_missing (p_term p) of
        Inl e \<Rightarrow> Inl e
      | Inr missing \<Rightarrow>
          (let errors = [];
               errors = (if missing then errors @ [msg_term] else errors);
               errors = (if truthy_opt (p_media p) \<and> \<not> array_includes VALID_MEDIA_TYPES (p_media p)
                         then errors @ [msg_media] else errors);
               errors = (if truthy_opt (p_limit p)
                         then (let limit = parseInt_opt (p_limit p)
                               in if limit_out_of_range limit then errors @ [msg_limit] else errors)
                         else errors);
               errors = (if truthy_opt (p_country p) \<and> \<not> country_regex_test_opt (p_country p)
                         then errors @ [msg_country] else errors)
           in Inr \<lparr>isValid = (length errors = 0), errors = errors\<rparr>))"

section \<open>buildItunesUrl\<close>

subsection \<open>URLSearchParams\<close>

text \<open>
  \<open>URLSearchParams.toString()\<close> is the application/x-www-form-urlencoded serializer:
  names and values are converted to scalar values (a lone surrogate becomes U+FFFD),
  encoded in UTF-8, and every byte other than an ASCII letter or digit and
  \<open>*\<close>, \<open>-\<close>, \<open>.\<close>, \<open>_\<close> is percent-encoded, the space as \<open>+\<close>.
\<close>

definition is_high_surrogate :: "jschar \<Rightarrow> bool" where
  "is_high_surrogate c = (0xD800 \<le> c \<and> c \<le> 0xDBFF)"

definition is_low_surrogate :: "jschar \<Rightarrow> bool" where
  "is_low_surrogate c = (0xDC00 \<le> c \<and> c \<le> 0xDFFF)"

definition scalar_of_unit :: "jschar \<Rightarrow> nat" where
  "scalar_of_unit c = (if is_high_surrogate c \<or> is_low_surrogate c then 0xFFFD else unat c)"

fun utf16_decode :: "jsstring \<Rightarrow> nat list" where
  "utf16_decode [] = []"
| "utf16_decode [c] = [scalar_of_unit c]"
| "utf16_decode (c # d # cs) =
     (if is_high_surrogate c \<and> is_low_surrogate d
      then (0x10000 + (unat c - 0xD800) * 0x400 + (unat d - 0xDC00)) # utf16_decode cs
      else scalar_of_unit c # utf16_decode (d # cs))"

definition utf8_encode :: "nat \<Rightarrow> nat list" where
  "utf8_encode cp =
     (if cp < 0x80 then [cp]
      else if cp < 0x800 then [0xC0 + cp div 0x40, 0x80 + cp mod 0x40]
      else if cp < 0x10000 then
        [0xE0 + cp div 0x1000, 0x80 + (cp div 0x40) mod 0x40, 0x80 + cp mod 0x40]
      else [0xF0 + cp div 0x40000, 0x80 + (cp div 0x1000) mod 0x40,
            0x80 + (cp div 0x40) mod 0x40, 0x80 + cp mod 0x40])"

definition hex_digit :: "nat \<Rightarrow> jschar" where
  "hex_digit d = of_nat (if d < 10 then 0x30 + d else 0x41 + (d - 10))"

definition form_unreserved :: "nat \<Rightarrow> bool" where
  "form_unreserved b = ((0x30 \<le> b \<and> b \<le> 0x39) \<or> (0x41 \<le> b \<and> b \<le> 0x5A) \<or> (0x61 \<le> b \<and> b \<le> 0x7A)
     \<or> b = 0x2A \<or> b = 0x2D \<or> b = 0x2E \<or> b = 0x5F)"

definition form_encode_byte :: "nat \<Rightarrow> jsstring" where
  "form_encode_byte b =
     (if b = 0x20 then str ''+''
      else if form_unreserved b then [of_nat b]
      else [0x25, hex_digit (b div 16), hex_digit (b mod 16)])"

definition form_encode :: "jsstring \<Rightarrow> jsstring" where
  "form_encode s = concat (map form_encode_byte (concat (map utf8_encode (utf16_decode s))))"

definition sp_append :: "(jsstring \<times> jsstring) list \<Rightarrow> jsstring \<Rightarrow> jsstring \<Rightarrow> (jsstring \<times> jsstring) list" where
  "sp_append sp name val = sp @ [(name, val)]"

definition sp_toString :: "(jsstring \<times> jsstring) list \<Rightarrow> jsstring" where
  "sp_toString sp = join (str ''&'') (map (\<lambda>(n, v). form_encode n @ str ''='' @ form_encode v) sp)"

subsection \<open>The builder\<close>

text \<open>
  The list of parameters that \<open>buildItunesUrl\<close> appends, in order.
  \<open>params.term.trim()\<close> raises a TypeError when the term is \<open>undefined\<close>.
\<close>

definition buildSearchParams :: "params \<Rightarrow> js_error + (jsstring \<times> jsstring) list" where
  "buildSearchParams p =
     (case trim_method (p_term p) of
        Inl e \<Rightarrow> Inl e
      | Inr t \<Rightarrow>
          (let searchParams = [];
               searchParams = sp_append searchParams (str ''term'') t;
               searchParams = sp_append searchParams (str ''media'') (or_default (p_media p) (str ''all''));
               searchParams = sp_append searchParams (str ''limit'') (or_default (p_limit p) (str ''50''));
               searchParams = sp_append searchParams (str ''country'') (or_default (p_country p) (str ''US''));
               searchParams = sp_append searchParams (str ''explicit'') (or_default (p_explicit p) (str ''Yes''))
           in (case p_entity p of
                 None \<Rightarrow> Inr searchParams
               | Some entity \<Rightarrow>
                   if entity = [] then Inr searchParams
                   else (let mediaType = or_default (p_media p) (str ''all'')
                         in case validEntities_of mediaType of
                              Inl e \<Rightarrow> Inl e
                            | Inr validEntities \<Rightarrow>
                                Inr (if array_includes validEntities (Some entity)
                                     then sp_append searchParams (str ''entity'') entity
                                     else searchParams)))))"

definition buildItunesUrl :: "params \<Rightarrow> js_error + jsstring" where
  "buildItunesUrl p =
     (case buildSearchParams p of
        Inl e \<Rightarrow> Inl e
      | Inr searchParams \<Rightarrow> Inr (ITUNES_SEARCH_ENDPOINT @ str ''?'' @ sp_toString searchParams))"

section \<open>JSON values and the runtime\<close>

text \<open>
  The values \<open>JSON.parse\<close> can produce, and \<open>undefined\<close>. Numbers are kept abstract
  (\<open>'n\<close>): what the code needs of them comes from the runtime. An object is the list of
  its own properties.
\<close>

datatype 'n jsval =
    JUndefined
  | JNull
  | JBool bool
  | JNum 'n
  | JStr jsstring
  | JArr "'n jsval list"
  | JObj "(jsstring \<times> 'n jsval) list"

text \<open>
  What the code takes from the JavaScript runtime and the host: ToBoolean and ToString of
  a number, the numbers 0 and 1, \<open>x > 0\<close> for a number and for a string (after ToNumber),
  \<open>Date.now()\<close>, \<open>Date.parse\<close> and TimeClip (\<open>None\<close> is NaN),
  \<open>toLocaleDateString\<close> of a valid time value, \<open>new Date().toISOString()\<close>, and
  \<open>process.env.NODE_ENV\<close>.
\<close>

record 'n runtime =
  num_truthy :: "'n \<Rightarrow> bool"
  num_to_string :: "'n \<Rightarrow> jsstring"
  num_zero :: 'n
  num_one :: 'n
  num_gt_zero :: "'n \<Rightarrow> bool"
  string_gt_zero :: "jsstring \<Rightarrow> bool"
  date_now :: 'n
  date_parse :: "jsstring \<Rightarrow> 'n option"
  time_clip :: "'n \<Rightarrow> 'n option"
  locale_date_string :: "'n \<Rightarrow> jsstring"
  iso_now :: jsstring
  node_env :: "jsstring option"

fun truthy :: "'n runtime \<Rightarrow> 'n jsval \<Rightarrow> bool" where
  "truthy rt JUndefined = False"
| "truthy rt JNull = False"
| "truthy rt (JBool b) = b"
| "truthy rt (JNum n) = num_truthy rt n"
| "truthy rt (JStr s) = (s \<noteq> [])"
| "truthy rt (JArr xs) = True"
| "truthy rt (JObj kvs) = True"

text \<open>\<open>Array.prototype.join\<close> with the default separator, over the elements' strings.\<close>

fun join_results :: "(js_error + jsstring) list \<Rightarrow> js_error + jsstring" where
  "join_results [] = Inr []"
| "join_results [r] = r"
| "join_results (r # q # rs) =
     (case r of
        Inl e \<Rightarrow> Inl e
      | Inr s \<Rightarrow> (case join_results (q # rs) of Inl e \<Rightarrow> Inl e | Inr t \<Rightarrow> Inr (s @ str '','' @ t)))"

text \<open>
  ToString. An array joins its elements (\<open>undefined\<close> and \<open>null\<close> as the empty string).
  An object parsed from JSON has no callable property of its own: with an own
  \<open>toString\<close> key the conversion finds no method and raises a TypeError, otherwise
  \<open>Object.prototype.toString\<close> answers.
\<close>

fun to_string :: "'n runtime \<Rightarrow> 'n jsval \<Rightarrow> js_error + jsstring" where
  "to_string rt JUndefined = Inr (str ''undefined'')"
| "to_string rt JNull = Inr (str ''null'')"
| "to_string rt (JBool b) = Inr (if b then str ''true'' else str ''false'')"
| "to_string rt (JNum n) = Inr (num_to_string rt n)"
| "to_string rt (JStr s) = Inr s"
| "to_string rt (JArr xs) =
     join_results (map (\<lambda>x. if x = JUndefined \<or> x = JNull then Inr [] else to_string rt x) xs)"
| "to_string rt (JObj kvs) =
     (if str ''toString'' \<in> set (map fst kvs) then Inl TypeError else Inr (str ''[object Object]''))"

definition obj_get :: "(jsstring \<times> 'n jsval) list \<Rightarrow> jsstring \<Rightarrow> 'n jsval" where
  "obj_get kvs k = (case map_of kvs k of None \<Rightarrow> JUndefined | Some v \<Rightarrow> v)"

text \<open>
  \<open>v.k\<close> for a value \<open>v\<close> other than \<open>undefined\<close> and \<open>null\<close>, and a name \<open>k\<close> that
  no prototype defines (all the names the normalizer reads are such).
\<close>

definition field :: "'n jsval \<Rightarrow> jsstring \<Rightarrow> 'n jsval" where
  "field v k = (case v of JObj kvs \<Rightarrow> obj_get kvs k | _ \<Rightarrow> JUndefined)"

definition nullish :: "'n jsval \<Rightarrow> bool" where
  "nullish v = (v = JUndefined \<or> v = JNull)"

text \<open>
  \<open>v?.replace(pat, rep)\<close>: \<open>undefined\<close> on \<open>undefined\<close> and \<open>null\<close>; a TypeError on any
  other value that is not a string (it has no callable \<open>replace\<close>).
\<close>

definition opt_replace :: "jsstring \<Rightarrow> jsstring \<Rightarrow> 'n jsval \<Rightarrow> js_error + 'n jsval" where
  "opt_replace pat rep v =
     (case v of
        JUndefined \<Rightarrow> Inr JUndefined
      | JNull \<Rightarrow> Inr JUndefined
      | JStr s \<Rightarrow> Inr (JStr (replace_first pat rep s))
      | _ \<Rightarrow> Inl TypeError)"

text \<open>\<open>v?.[0]\<close>.\<close>

definition opt_index0 :: "'n jsval \<Rightarrow> 'n jsval" where
  "opt_index0 v =
     (case v of
        JArr xs \<Rightarrow> (case xs of [] \<Rightarrow> JUndefined | x # _ \<Rightarrow> x)
      | JStr s \<Rightarrow> (case s of [] \<Rightarrow> JUndefined | c # _ \<Rightarrow> JStr [c])
      | JObj kvs \<Rightarrow> obj_get kvs (str ''0'')
      | _ \<Rightarrow> JUndefined)"

function nat_dec :: "nat \<Rightarrow> jsstring" where
  "nat_dec n = (if n < 10 then [of_nat (0x30 + n)] else nat_dec (n div 10) @ [of_nat (0x30 + n mod 10)])"
  by pat_completeness auto
termination
  by (relation "measure id") auto

declare nat_dec.simps [simp del]

text \<open>
  The own enumerable properties that \<open>{...v}\<close> copies: an object's properties, the
  elements of an array and the code units of a string under their indices, nothing else.
\<close>

definition spread :: "'n jsval \<Rightarrow> (jsstring \<times> 'n jsval) list" where
  "spread v =
     (case v of
        JObj kvs \<Rightarrow> kvs
      | JArr xs \<Rightarrow> zip (map nat_dec [0 ..< length xs]) xs
      | JStr s \<Rightarrow> zip (map nat_dec [0 ..< length s]) (map (\<lambda>c. JStr [c]) s)
      | _ \<Rightarrow> [])"

text \<open>\<open>new Date(v)\<close>: the time value, \<open>None\<close> for an invalid date.\<close>

definition new_Date :: "'n runtime \<Rightarrow> 'n jsval \<Rightarrow> js_error + 'n option" where
  "new_Date rt v =
     (case v of
        JUndefined \<Rightarrow> Inr None
      | JNull \<Rightarrow> Inr (time_clip rt (num_zero rt))
      | JBool b \<Rightarrow> Inr (time_clip rt (if b then num_one rt else num_zero rt))
      | JNum n \<Rightarrow> Inr (time_clip rt n)
      | JStr s \<Rightarrow> Inr (date_parse rt s)
      | _ \<Rightarrow> (case to_string rt v of Inl e \<Rightarrow> Inl e | Inr s \<Rightarrow> Inr (date_parse rt s)))"

definition toLocaleDateString :: "'n runtime \<Rightarrow> 'n option \<Rightarrow> jsstring" where
  "toLocaleDateString rt tv =
     (case tv of None \<Rightarrow> str ''Invalid Date'' | Some t \<Rightarrow> locale_date_string rt t)"

text \<open>\<open>v > 0\<close>.\<close>

definition gt_zero :: "'n runtime \<Rightarrow> 'n jsval \<Rightarrow> js_error + bool" where
  "gt_zero rt v =
     (case v of
        JUndefined \<Rightarrow> Inr False
      | JNull \<Rightarrow> Inr False
      | JBool b \<Rightarrow> Inr b
      | JNum n \<Rightarrow> Inr (num_gt_zero rt n)
      | JStr s \<Rightarrow> Inr (string_gt_zero rt s)
      | _ \<Rightarrow> (case to_string rt v of Inl e \<Rightarrow> Inl e | Inr s \<Rightarrow> Inr (string_gt_zero rt s)))"

section \<open>processItunesResponse\<close>

text \<open>
  The six derived properties of the object literal in the \<open>map\<close> callback, each as the
  source computes it. \<open>a || b\<close> is \<open>a\<close> when \<open>a\<close> is truthy and \<open>b\<close> otherwise, and
  \<open>b\<close> is evaluated only then.
\<close>

definition artworkUrl_of :: "'n runtime \<Rightarrow> 'n jsval \<Rightarrow> js_error + 'n jsval" where
  "artworkUrl_of rt item =
     (case opt_replace (str ''100x100'') (str ''300x300'') (field item (str ''artworkUrl100'')) of
        Inl e \<Rightarrow> Inl e
      | Inr a \<Rightarrow>
          if truthy rt a then Inr a
          else (case opt_replace (str ''60x60'') (str ''300x300'') (field item (str ''artworkUrl60'')) of
                  Inl e \<Rightarrow> Inl e
                | Inr b \<Rightarrow>
                    if truthy rt b then Inr b
                    else (case opt_replace (str ''30x30'') (str ''300x300'')
                                 (field item (str ''artworkUrl30'')) of
                            Inl e \<Rightarrow> Inl e
                          | Inr c \<Rightarrow>
                              if truthy rt c then Inr c
                              else Inr (field item (str ''artworkUrl100'')))))"

definition releaseDate_of :: "'n runtime \<Rightarrow> 'n jsval \<Rightarrow> js_error + 'n jsval" where
  "releaseDate_of rt item =
     (if truthy rt (field item (str ''releaseDate''))
      then (case new_Date rt (field item (str ''releaseDate'')) of
              Inl e \<Rightarrow> Inl e
            | Inr d \<Rightarrow> Inr (JStr (toLocaleDateString rt d)))
      else Inr JNull)"

definition formattedPrice_of :: "'n runtime \<Rightarrow> 'n jsval \<Rightarrow> js_error + 'n jsval" where
  "formattedPrice_of rt item =
     (if truthy rt (field item (str ''trackPrice''))
      then (case to_string rt (field item (str ''trackPrice'')) of
              Inl e \<Rightarrow> Inl e
            | Inr s \<Rightarrow> Inr (JStr s))
      else if truthy rt (field item (str ''collectionPrice''))
      then (case to_string rt (field item (str ''collectionPrice'')) of
              Inl e \<Rightarrow> Inl e
            | Inr s \<Rightarrow> Inr (JStr s))
      else Inr (JStr (str ''N/A'')))"

definition mediaType_of :: "'n runtime \<Rightarrow> 'n jsval \<Rightarrow> 'n jsval" where
  "mediaType_of rt item =
     (if truthy rt (field item (str ''wrapperType'')) then field item (str ''wrapperType'')
      else if truthy rt (field item (str ''kind'')) then field item (str ''kind'')
      else JStr (str ''unknown''))"

definition primaryGenre_of :: "'n runtime \<Rightarrow> 'n jsval \<Rightarrow> 'n jsval" where
  "primaryGenre_of rt item =
     (if truthy rt (field item (str ''primaryGenreName'')) then field item (str ''primaryGenreName'')
      else if truthy rt (opt_index0 (field item (str ''genres'')))
      then opt_index0 (field item (str ''genres''))
      else JStr (str ''Unknown''))"

definition uniqueId_of :: "'n runtime \<Rightarrow> 'n jsval \<Rightarrow> 'n jsval" where
  "uniqueId_of rt item =
     (if truthy rt (field item (str ''trackId'')) then field item (str ''trackId'')
      else if truthy rt (field item (str ''collectionId'')) then field item (str ''collectionId'')
      else if truthy rt (field item (str ''artistId'')) then field item (str ''artistId'')
      else JNum (date_now rt))"

text \<open>
  The callback \<open>item => ({...item, artworkUrl: ..., ..., uniqueId: ...})\<close>. Reading a
  property of \<open>undefined\<close> or \<open>null\<close> raises a TypeError. A property assigned after the
  spread replaces the copied one of the same name in place, or is added at the end.
\<close>

definition derived_keys :: "jsstring list" where
  "derived_keys =
     [str ''artworkUrl'', str ''releaseDate'', str ''formattedPrice'', str ''mediaType'',
      str ''primaryGenre'', str ''uniqueId'']"

definition enhance :: "'n runtime \<Rightarrow> 'n jsval \<Rightarrow> js_error + 'n jsval" where
  "enhance rt item =
     (if nullish item then Inl TypeError
      else (case artworkUrl_of rt item of
              Inl e \<Rightarrow> Inl e
            | Inr artworkUrl \<Rightarrow>
                (case releaseDate_of rt item of
                   Inl e \<Rightarrow> Inl e
                 | Inr releaseDate \<Rightarrow>
                     (case formattedPrice_of rt item of
                        Inl e \<Rightarrow> Inl e
                      | Inr formattedPrice \<Rightarrow>
                          Inr (JObj (foldl (\<lambda>obj (k, v). AList.update k v obj) (spread item)
                                 [(str ''artworkUrl'', artworkUrl),
                                  (str ''releaseDate'', releaseDate),
                                  (str ''formattedPrice'', formattedPrice),
                                  (str ''mediaType'', mediaType_of rt item),
                                  (str ''primaryGenre'', primaryGenre_of rt item),
                                  (str ''uniqueId'', uniqueId_of rt item)]))))))"

text \<open>\<open>xs.map(f)\<close> where \<open>f\<close> may raise: the first exception ends the loop.\<close>

fun map_result :: "('a \<Rightarrow> js_error + 'b) \<Rightarrow> 'a list \<Rightarrow> js_error + 'b list" where
  "map_result f [] = Inr []"
| "map_result f (x # xs) =
     (case f x of
        Inl e \<Rightarrow> Inl e
      | Inr y \<Rightarrow> (case map_result f xs of Inl e \<Rightarrow> Inl e | Inr ys \<Rightarrow> Inr (y # ys)))"

record 'n search_info =
  totalResults :: "'n jsval"
  hasResults :: bool
  searchedAt :: jsstring

record 'n processed =
  resultCount :: "'n jsval"
  results :: "'n jsval list"
  searchInfo :: "'n search_info"

text \<open>
  \<open>data.results || []\<close> must be an array for \<open>.map\<close> to exist: any other truthy value
  raises a TypeError.
\<close>

definition processItunesResponse :: "'n runtime \<Rightarrow> 'n jsval \<Rightarrow> js_error + 'n processed" where
  "processItunesResponse rt data =
     (if nullish data then Inl TypeError
      else (case (if truthy rt (field data (str ''results'')) then field data (str ''results'')
                  else JArr []) of
              JArr items \<Rightarrow>
                (case map_result (enhance rt) items of
                   Inl e \<Rightarrow> Inl e
                 | Inr enhancedResults \<Rightarrow>
                     (let count = (if truthy rt (field data (str ''resultCount''))
                                   then field data (str ''resultCount'') else JNum (num_zero rt))
                      in case gt_zero rt count of
                           Inl e \<Rightarrow> Inl e
                         | Inr has \<Rightarrow>
                             Inr \<lparr>resultCount = count, results = enhancedResults,
                                  searchInfo = \<lparr>totalResults = count, hasResults = has,
                                                searchedAt = iso_now rt\<rparr>\<rparr>))
            | _ \<Rightarrow> Inl TypeError))"

section \<open>The request handler\<close>

text \<open>
  What the \<open>catch\<close> block can receive: an error of the HTTP client, with its \<open>code\<close> and
  the status of the upstream response when there is one, or an exception raised by the
  handler's own code.
\<close>

datatype thrown =
    Upstream_error "jsstring option" "int option"
  | Native js_error

fun error_code :: "thrown \<Rightarrow> jsstring option" where
  "error_code (Upstream_error c s) = c"
| "error_code (Native e) = None"

fun error_response_status :: "thrown \<Rightarrow> int option" where
  "error_response_status (Upstream_error c s) = s"
| "error_response_status (Native e) = None"

text \<open>
  The effects of a request in order: the log calls and the upstream request.
\<close>

datatype event =
    Log_warn jsstring
  | Log_info jsstring
  | Log_error jsstring
  | Axios_get jsstring

record search_params_echo =
  echo_term :: "jsstring option"
  echo_media :: jsstring
  echo_limit :: int
  echo_country :: jsstring

text \<open>
  The JSON bodies: a failure has \<open>error\<close> and \<open>message\<close>, and optionally \<open>errors\<close> with
  \<open>validMediaTypes\<close>, or \<open>details\<close> (the message of the error caught); a success has
  \<open>data\<close> and \<open>searchParams\<close> (its \<open>metadata\<close>, read from the clock, is left out).
\<close>

datatype 'n body =
    Failure jsstring jsstring "jsstring list option" "jsstring list option" "thrown option"
  | Success "'n processed" search_params_echo

record 'n response =
  status :: nat
  body :: "'n body"

definition handle_error :: "'n runtime \<Rightarrow> thrown \<Rightarrow> 'n response" where
  "handle_error rt err =
     (if error_code err = Some (str ''ECONNABORTED'') \<or> error_code err = Some (str ''ETIMEDOUT'')
      then \<lparr>status = 408,
            body = Failure (str ''Request Timeout'')
                     (str ''iTunes API request timed out. Please try again.'') None None None\<rparr>
      else if error_response_status err = Some 403
      then \<lparr>status = 503,
            body = Failure (str ''Service Unavailable'')
                     (str ''iTunes API is currently unavailable. Please try again later.'')
                     None None None\<rparr>
      else if (case error_response_status err of None \<Rightarrow> False | Some s \<Rightarrow> s \<ge> 400 \<and> s < 500)
      then \<lparr>status = 400,
            body = Failure (str ''Bad Request'')
                     (str ''Invalid request to iTunes API. Please check your search parameters.'')
                     None None None\<rparr>
      else \<lparr>status = 500,
            body = Failure (str ''Search Failed'')
                     (str ''Unable to complete search request. Please try again later.'')
                     None None
                     (if node_env rt = Some (str ''development'') then Some err else None)\<rparr>)"

definition log_failed :: event where
  "log_failed = Log_error (str ''iTunes API search failed'')"

definition log_request :: event where
  "log_request = Log_info (str ''iTunes API search request'')"

text \<open>
  The handler of \<open>GET /\<close>, after authentication and rate limiting. \<open>axios_get\<close> is the
  outcome of the upstream request for a URL: the error it rejects with, or the
  \<open>data\<close> of its response.
\<close>

definition search_handler ::
  "'n runtime \<Rightarrow> (jsstring \<Rightarrow> thrown + 'n jsval) \<Rightarrow> params \<Rightarrow> event list \<times> 'n response" where
  "search_handler rt axios_get searchParams =
     (case validateSearchParams searchParams of
        Inl e \<Rightarrow> ([log_failed], handle_error rt (Native e))
      | Inr validation \<Rightarrow>
          if \<not> isValid validation
          then ([Log_warn (str ''Invalid search parameters'')],
                \<lparr>status = 400,
                 body = Failure (str ''Invalid Parameters'')
                          (str ''One or more search parameters are invalid'')
                          (Some (errors validation)) (Some VALID_MEDIA_TYPES) None\<rparr>)
          else (case buildItunesUrl searchParams of
                  Inl e \<Rightarrow> ([log_failed], handle_error rt (Native e))
                | Inr itunesUrl \<Rightarrow>
                    (case axios_get itunesUrl of
                       Inl err \<Rightarrow>
                         ([log_request, Axios_get itunesUrl, log_failed], handle_error rt err)
                     | Inr data \<Rightarrow>
                         (case processItunesResponse rt data of
                            Inl e \<Rightarrow>
                              ([log_request, Axios_get itunesUrl, log_failed],
                               handle_error rt (Native e))
                          | Inr processedData \<Rightarrow>
                              ([log_request, Axios_get itunesUrl,
                                Log_info (str ''iTunes API search completed'')],
                               \<lparr>status = 200,
                                body = Success processedData
                                  \<lparr>echo_term = p_term searchParams,
                                   echo_media = or_default (p_media searchParams) (str ''all''),
                                   echo_limit = (case parseInt_opt (p_limit searchParams) of
                                                   None \<Rightarrow> 50
                                                 | Some n \<Rightarrow> if n = 0 then 50 else n),
                                   echo_country = or_default (p_country searchParams) (str ''US'')\<rparr>\<rparr>)))))"

section \<open>Notions of the specification\<close>

subsection \<open>Reading the results\<close>

text \<open>A property of the normalized item, or the exception that normalizing it raises.\<close>

definition normalized_field :: "'n runtime \<Rightarrow> 'n jsval \<Rightarrow> jsstring \<Rightarrow> js_error + 'n jsval" where
  "normalized_field rt item k = (case enhance rt item of Inl e \<Rightarrow> Inl e | Inr out \<Rightarrow> Inr (field out k))"

text \<open>
  The parameters of a URL as a reader of the URL sees them: the part after the first
  \<open>?\<close>, split at every \<open>&\<close>, each piece split at its first \<open>=\<close>.
\<close>

fun split_on :: "jschar \<Rightarrow> jsstring \<Rightarrow> jsstring list" where
  "split_on sep [] = [[]]"
| "split_on sep (c # cs) =
     (if c = sep then [] # split_on sep cs
      else (case split_on sep cs of [] \<Rightarrow> [[c]] | piece # pieces \<Rightarrow> (c # piece) # pieces))"

definition url_query :: "jsstring \<Rightarrow> jsstring" where
  "url_query url = drop 1 (dropWhile (\<lambda>c. c \<noteq> 0x3F) url)"

definition url_params :: "jsstring \<Rightarrow> (jsstring \<times> jsstring) list" where
  "url_params url =
     map (\<lambda>piece. (takeWhile (\<lambda>c. c \<noteq> 0x3D) piece, drop 1 (dropWhile (\<lambda>c. c \<noteq> 0x3D) piece)))
       (split_on 0x26 (url_query url))"

definition url_has_param :: "jsstring \<Rightarrow> jsstring \<Rightarrow> bool" where
  "url_has_param name url = (name \<in> set (map fst (url_params url)))"

subsection \<open>The validation rules\<close>

text \<open>
  The rules, each on the value it judges. For the limit there are two: the check the
  code makes (\<open>limit_rule_violated\<close>), which reads the value with \<open>parseInt\<close> and so
  judges the longest numeric prefix only, and the rule as the specification words it
  (\<open>limit_rule_strict\<close>): the value is a decimal integer numeral from 1 to 200, or the
  rule is violated. A limit that is no such numeral but whose prefix \<open>parseInt\<close> reads
  as a number from 1 to 200 is \<open>lenient_limit\<close>; the two rules differ on these values
  only, and \<open>limit_settled\<close> says that a request has none.
\<close>

definition term_rule_violated :: "jsstring option \<Rightarrow> bool" where
  "term_rule_violated t = (case t of None \<Rightarrow> True | Some s \<Rightarrow> trim s = [])"

definition media_rule_violated :: "jsstring \<Rightarrow> bool" where
  "media_rule_violated m = (m \<notin> set VALID_MEDIA_TYPES)"

definition limit_rule_violated :: "jsstring \<Rightarrow> bool" where
  "limit_rule_violated l = (case parseInt l of None \<Rightarrow> True | Some n \<Rightarrow> n < 1 \<or> 200 < n)"

definition country_rule_violated :: "jsstring \<Rightarrow> bool" where
  "country_rule_violated c = (\<not> (length c = 2 \<and> list_all is_upper c))"

definition integer_in_range :: "jsstring \<Rightarrow> bool" where
  "integer_in_range l =
     (l \<noteq> [] \<and> list_all (radix_digit 10) l
      \<and> 1 \<le> foldl (\<lambda>a c. a * 10 + digit_val c) 0 l
      \<and> foldl (\<lambda>a c. a * 10 + digit_val c) 0 l \<le> 200)"

definition limit_rule_strict :: "jsstring \<Rightarrow> bool" where
  "limit_rule_strict l = (\<not> integer_in_range l)"

definition lenient_limit :: "jsstring \<Rightarrow> bool" where
  "lenient_limit l =
     (\<not> integer_in_range l \<and> (case parseInt l of None \<Rightarrow> False | Some n \<Rightarrow> 1 \<le> n \<and> n \<le> 200))"

definition limit_settled :: "jsstring option \<Rightarrow> bool" where
  "limit_settled v = (case v of None \<Rightarrow> True | Some l \<Rightarrow> \<not> lenient_limit l)"

text \<open>
  The messages of the violated rules, in the order of the rules: when the rules for
  media, limit and country judge every supplied string (\<open>violations_stated\<close>); when
  they judge the non-empty ones only (\<open>violations_by_rule\<close>); and what the code
  computes, which is the latter with the code's check of the limit
  (\<open>violations_reported\<close>).
\<close>

definition rule_message :: "(jsstring \<Rightarrow> bool) \<Rightarrow> jsstring \<Rightarrow> jsstring option \<Rightarrow> jsstring list" where
  "rule_message violated msg v =
     (case v of None \<Rightarrow> [] | Some s \<Rightarrow> if violated s then [msg] else [])"

definition nonempty_and :: "(jsstring \<Rightarrow> bool) \<Rightarrow> jsstring \<Rightarrow> bool" where
  "nonempty_and violated s = (s \<noteq> [] \<and> violated s)"

definition violations_stated :: "params \<Rightarrow> jsstring list" where
  "violations_stated p =
     (if term_rule_violated (p_term p) then [msg_term] else [])
     @ rule_message media_rule_violated msg_media (p_media p)
     @ rule_message limit_rule_strict msg_limit (p_limit p)
     @ rule_message country_rule_violated msg_country (p_country p)"

definition violations_by_rule :: "params \<Rightarrow> jsstring list" where
  "violations_by_rule p =
     (if term_rule_violated (p_term p) then [msg_term] else [])
     @ rule_message (nonempty_and media_rule_violated) msg_media (p_media p)
     @ rule_message (nonempty_and limit_rule_strict) msg_limit (p_limit p)
     @ rule_message (nonempty_and country_rule_violated) msg_country (p_country p)"

definition violations_reported :: "params \<Rightarrow> jsstring list" where
  "violations_reported p =
     (if term_rule_violated (p_term p) then [msg_term] else [])
     @ rule_message (nonempty_and media_rule_violated) msg_media (p_media p)
     @ rule_message (nonempty_and limit_rule_violated) msg_limit (p_limit p)
     @ rule_message (nonempty_and country_rule_violated) msg_country (p_country p)"

subsection \<open>The entity filter\<close>

definition entity_set :: "jsstring \<Rightarrow> jsstring list" where
  "entity_set m = (case map_of MEDIA_ENTITIES m of None \<Rightarrow> [] | Some es \<Rightarrow> es)"

text \<open>
  The effective media type: the supplied media, or \<open>all\<close> when it is absent
  (\<open>effective_media_stated\<close>); the code also takes \<open>all\<close> for the empty string
  (\<open>effective_media\<close>).
\<close>

definition effective_media_stated :: "params \<Rightarrow> jsstring" where
  "effective_media_stated p = (case p_media p of None \<Rightarrow> str ''all'' | Some m \<Rightarrow> m)"

definition effective_media :: "params \<Rightarrow> jsstring" where
  "effective_media p =
     (case p_media p of None \<Rightarrow> str ''all'' | Some m \<Rightarrow> if m = [] then str ''all'' else m)"

definition entity_supplied_in :: "params \<Rightarrow> jsstring \<Rightarrow> bool" where
  "entity_supplied_in p m = (case p_entity p of None \<Rightarrow> False | Some e \<Rightarrow> e \<in> set (entity_set m))"

subsection \<open>The query string\<close>

text \<open>A code unit other than \<open>&\<close> and \<open>=\<close>: the serializer emits no other.\<close>

definition plain :: "jschar \<Rightarrow> bool" where
  "plain c = (c \<noteq> 0x26 \<and> c \<noteq> 0x3D)"

text \<open>The five parameters every URL carries, for the term \<open>t\<close>.\<close>

definition base_params :: "params \<Rightarrow> jsstring \<Rightarrow> (jsstring \<times> jsstring) list" where
  "base_params p t =
     [(str ''term'', trim t),
      (str ''media'', effective_media p),
      (str ''limit'', or_default (p_limit p) (str ''50'')),
      (str ''country'', or_default (p_country p) (str ''US'')),
      (str ''explicit'', or_default (p_explicit p) (str ''Yes''))]"

subsection \<open>The derived properties as the specification words them\<close>

text \<open>
  The artwork URL: the first of the three artwork properties that is present (a string),
  with its size token replaced, and \<open>null\<close> when none is (\<open>artworkUrl_stated\<close>). The code
  takes the first whose replaced string is non-empty, and otherwise hands back the value
  of \<open>artworkUrl100\<close> as it is (\<open>artworkUrl_computed\<close>).
\<close>

definition artworkUrl_stated :: "'n jsval \<Rightarrow> 'n jsval" where
  "artworkUrl_stated item =
     (case field item (str ''artworkUrl100'') of
        JStr s \<Rightarrow> JStr (replace_first (str ''100x100'') (str ''300x300'') s)
      | _ \<Rightarrow>
          (case field item (str ''artworkUrl60'') of
             JStr s \<Rightarrow> JStr (replace_first (str ''60x60'') (str ''300x300'') s)
           | _ \<Rightarrow>
               (case field item (str ''artworkUrl30'') of
                  JStr s \<Rightarrow> JStr (replace_first (str ''30x30'') (str ''300x300'') s)
                | _ \<Rightarrow> JNull)))"

definition upgraded :: "jsstring \<Rightarrow> 'n jsval \<Rightarrow> jsstring option" where
  "upgraded token v =
     (case v of
        JStr s \<Rightarrow> if s = [] then None else Some (replace_first token (str ''300x300'') s)
      | _ \<Rightarrow> None)"

definition artworkUrl_computed :: "'n jsval \<Rightarrow> 'n jsval" where
  "artworkUrl_computed item =
     (case upgraded (str ''100x100'') (field item (str ''artworkUrl100'')) of
        Some u \<Rightarrow> JStr u
      | None \<Rightarrow>
          (case upgraded (str ''60x60'') (field item (str ''artworkUrl60'')) of
             Some u \<Rightarrow> JStr u
           | None \<Rightarrow>
               (case upgraded (str ''30x30'') (field item (str ''artworkUrl30'')) of
                  Some u \<Rightarrow> JStr u
                | None \<Rightarrow> field item (str ''artworkUrl100''))))"

text \<open>
  The release date of a record whose \<open>releaseDate\<close> is the string \<open>s\<close>: the formatted
  date when \<open>s\<close> parses, and \<open>null\<close> otherwise (\<open>releaseDate_stated\<close>); the code gives
  \<open>null\<close> for the empty string only, and the text \<open>Invalid Date\<close> for any other string
  that does not parse (\<open>releaseDate_computed\<close>).
\<close>

definition releaseDate_stated :: "'n runtime \<Rightarrow> jsstring \<Rightarrow> 'n jsval" where
  "releaseDate_stated rt s =
     (case date_parse rt s of None \<Rightarrow> JNull | Some t \<Rightarrow> JStr (locale_date_string rt t))"

definition releaseDate_computed :: "'n runtime \<Rightarrow> jsstring \<Rightarrow> 'n jsval" where
  "releaseDate_computed rt s =
     (if s = [] then JNull
      else (case date_parse rt s of
              None \<Rightarrow> JStr (str ''Invalid Date'')
            | Some t \<Rightarrow> JStr (locale_date_string rt t)))"

subsection \<open>The normalized item and the upstream sequence\<close>

text \<open>
  The object that the callback builds once the three properties that can raise have their
  values \<open>a\<close>, \<open>r\<close> and \<open>f\<close>.
\<close>

definition enhanced_object ::
  "'n runtime \<Rightarrow> 'n jsval \<Rightarrow> 'n jsval \<Rightarrow> 'n jsval \<Rightarrow> 'n jsval \<Rightarrow> (jsstring \<times> 'n jsval) list" where
  "enhanced_object rt item a r f =
     foldl (\<lambda>obj (k, v). AList.update k v obj) (spread item)
       [(str ''artworkUrl'', a), (str ''releaseDate'', r), (str ''formattedPrice'', f),
        (str ''mediaType'', mediaType_of rt item), (str ''primaryGenre'', primaryGenre_of rt item),
        (str ''uniqueId'', uniqueId_of rt item)]"

text \<open>The records of the upstream body, in their order: none when \<open>results\<close> is no array.\<close>

definition raw_results :: "'n jsval \<Rightarrow> 'n jsval list" where
  "raw_results data = (case field data (str ''results'') of JArr xs \<Rightarrow> xs | _ \<Rightarrow> [])"

subsection \<open>Well-formed upstream bodies\<close>

text \<open>
  A value that is no array and no object; a value that is a string, \<open>null\<close> or absent.
  A well-formed record is an object whose three artwork properties are strings, \<open>null\<close>
  or absent and whose release date and prices are no arrays and no objects; a
  well-formed body is an object whose \<open>results\<close> are absent or an array of well-formed
  records and whose \<open>resultCount\<close> is no array and no object.
\<close>

definition scalar :: "'n jsval \<Rightarrow> bool" where
  "scalar v = (case v of JArr xs \<Rightarrow> False | JObj kvs \<Rightarrow> False | _ \<Rightarrow> True)"

definition text_or_missing :: "'n jsval \<Rightarrow> bool" where
  "text_or_missing v =
     (case v of JUndefined \<Rightarrow> True | JNull \<Rightarrow> True | JStr s \<Rightarrow> True | _ \<Rightarrow> False)"

definition well_formed_record :: "'n jsval \<Rightarrow> bool" where
  "well_formed_record item =
     ((case item of JObj kvs \<Rightarrow> True | _ \<Rightarrow> False)
      \<and> text_or_missing (field item (str ''artworkUrl100''))
      \<and> text_or_missing (field item (str ''artworkUrl60''))
      \<and> text_or_missing (field item (str ''artworkUrl30''))
      \<and> scalar (field item (str ''releaseDate''))
      \<and> scalar (field item (str ''trackPrice''))
      \<and> scalar (field item (str ''collectionPrice'')))"

definition well_formed_body :: "'n jsval \<Rightarrow> bool" where
  "well_formed_body data =
     ((case data of JObj kvs \<Rightarrow> True | _ \<Rightarrow> False)
      \<and> (case field data (str ''results'') of
            JArr items \<Rightarrow> list_all well_formed_record items
          | JUndefined \<Rightarrow> True
          | _ \<Rightarrow> False)
      \<and> scalar (field data (str ''resultCount'')))"

subsection \<open>The failures of the upstream call\<close>

definition is_timeout :: "thrown \<Rightarrow> bool" where
  "is_timeout err =
     (error_code err = Some (str ''ECONNABORTED'') \<or> error_code err = Some (str ''ETIMEDOUT''))"

text \<open>The \<open>error\<close> property of a response body.\<close>

definition body_error :: "'n body \<Rightarrow> jsstring option" where
  "body_error b = (case b of Failure e m es vs d \<Rightarrow> Some e | Success d sp \<Rightarrow> None)"

section \<open>A runtime for the examples\<close>

text \<open>
  An instance of the runtime to evaluate the model on concrete inputs: the numbers are
  the integers, \<open>Date.parse\<close> reads the form \<open>YYYY-MM-DDTHH:mm:ssZ\<close> (the date-time
  format of the upstream records) and rejects every other string, dates are printed as
  the locale \<open>en-US\<close> does in UTC, and a string is compared with 0 as the decimal
  integer it spells.
\<close>

definition int_dec :: "int \<Rightarrow> jsstring" where
  "int_dec i = (if i < 0 then str ''-'' @ nat_dec (nat (- i)) else nat_dec (nat i))"

definition dec_val :: "jsstring \<Rightarrow> int option" where
  "dec_val s =
     (if s \<noteq> [] \<and> list_all (radix_digit 10) s
      then Some (int (foldl (\<lambda>a c. a * 10 + digit_val c) 0 s)) else None)"

definition days_from_civil :: "int \<Rightarrow> int \<Rightarrow> int \<Rightarrow> int" where
  "days_from_civil y0 m d =
     (let y = (if m \<le> 2 then y0 - 1 else y0);
          era = y div 400;
          yoe = y - era * 400;
          doy = (153 * (if m > 2 then m - 3 else m + 9) + 2) div 5 + d - 1;
          doe = yoe * 365 + yoe div 4 - yoe div 100 + doy
      in era * 146097 + doe - 719468)"

definition civil_from_days :: "int \<Rightarrow> int \<times> int \<times> int" where
  "civil_from_days z0 =
     (let z = z0 + 719468;
          era = z div 146097;
          doe = z - era * 146097;
          yoe = (doe - doe div 1460 + doe div 36524 - doe div 146096) div 365;
          doy = doe - (365 * yoe + yoe div 4 - yoe div 100);
          mp = (5 * doy + 2) div 153;
          d = doy - (153 * mp + 2) div 5 + 1;
          m = (if mp < 10 then mp + 3 else mp - 9)
      in ((if m \<le> 2 then yoe + era * 400 + 1 else yoe + era * 400), m, d))"

definition days_in_month :: "int \<Rightarrow> int \<Rightarrow> int" where
  "days_in_month y m =
     (if m = 2 then (if y mod 4 = 0 \<and> (y mod 100 \<noteq> 0 \<or> y mod 400 = 0) then 29 else 28)
      else if m = 4 \<or> m = 6 \<or> m = 9 \<or> m = 11 then 30 else 31)"

definition iso_parse :: "jsstring \<Rightarrow> int option" where
  "iso_parse s =
     (if length s = 20 \<and> take 1 (drop 4 s) = str ''-'' \<and> take 1 (drop 7 s) = str ''-''
         \<and> take 1 (drop 10 s) = str ''T'' \<and> take 1 (drop 13 s) = str '':''
         \<and> take 1 (drop 16 s) = str '':'' \<and> drop 19 s = str ''Z''
      then (case (dec_val (take 4 s), dec_val (take 2 (drop 5 s)), dec_val (take 2 (drop 8 s)),
                  dec_val (take 2 (drop 11 s)), dec_val (take 2 (drop 14 s)),
                  dec_val (take 2 (drop 17 s))) of
              (Some y, Some m, Some d, Some h, Some mi, Some sec) \<Rightarrow>
                if 1 \<le> m \<and> m \<le> 12 \<and> 1 \<le> d \<and> d \<le> days_in_month y m \<and> h \<le> 23 \<and> mi \<le> 59 \<and> sec \<le> 59
                then Some (((days_from_civil y m d * 24 + h) * 60 + mi) * 60000 + sec * 1000)
                else None
            | _ \<Rightarrow> None)
      else None)"

definition en_US_date :: "int \<Rightarrow> jsstring" where
  "en_US_date t =
     (case civil_from_days (t div 86400000) of
        (y, m, d) \<Rightarrow> int_dec m @ str ''/'' @ int_dec d @ str ''/'' @ int_dec y)"

definition example_runtime :: "int runtime" where
  "example_runtime =
     \<lparr>num_truthy = (\<lambda>n. n \<noteq> 0),
      num_to_string = int_dec,
      num_zero = 0,
      num_one = 1,
      num_gt_zero = (\<lambda>n. 0 < n),
      string_gt_zero = (\<lambda>s. case dec_val (trim s) of None \<Rightarrow> False | Some n \<Rightarrow> 0 < n),
      date_now = 1700000000000,
      date_parse = iso_parse,
      time_clip = (\<lambda>t. if \<bar>t\<bar> \<le> 8640000000000000 then Some t else None),
      locale_date_string = en_US_date,
      iso_now = str ''2023-11-14T22:13:20.000Z'',
      node_env = Some (str ''production'')\<rparr>"

definition no_params :: params where
  "no_params =
     \<lparr>p_term = None, p_media = None, p_limit = None, p_country = None, p_entity = None,
      p_explicit = None\<rparr>"

text \<open>An upstream body of two records; the second carries a \<open>uniqueId\<close> of its own.\<close>

definition example_data :: "int jsval" where
  "example_data =
     JObj [(str ''resultCount'', JNum 2),
           (str ''results'',
            JArr [JObj [(str ''trackId'', JNum 42), (str ''trackName'', JStr (str ''X'')),
                        (str ''artistName'', JStr (str ''Adele'')),
                        (str ''previewUrl'', JStr (str ''https://a.test/p.m4a''))],
                  JObj [(str ''collectionId'', JNum 7), (str ''uniqueId'', JStr (str ''raw''))]])]"

section \<open>The validator\<close>

lemma term_missing_eq: "term_missing t = Inr (term_rule_violated t)"
proof (cases t)
  case None
  then show ?thesis by (simp add: term_missing_def term_rule_violated_def truthy_opt_def)
next
  case (Some s)
  show ?thesis
  proof (cases "s = []")
    case True
    with Some show ?thesis
      by (simp add: term_missing_def term_rule_violated_def truthy_opt_def trim_def)
  next
    case False
    with Some show ?thesis
      by (simp add: term_missing_def term_rule_violated_def truthy_opt_def typeof_opt_def
          trim_method_def)
  qed
qed

lemma country_regex_test_iff: "country_regex_test c \<longleftrightarrow> length c = 2 \<and> list_all is_upper c"
proof (cases c)
  case Nil
  then show ?thesis by (simp add: country_regex_test_def)
next
  case (Cons a as)
  note outer = this
  show ?thesis
  proof (cases as)
    case Nil
    with outer show ?thesis by (simp add: country_regex_test_def)
  next
    case (Cons b bs)
    with outer show ?thesis by (cases bs) (simp_all add: country_regex_test_def)
  qed
qed

lemma media_check_eq:
  "(truthy_opt v \<and> \<not> array_includes VALID_MEDIA_TYPES v)
     = (rule_message (nonempty_and media_rule_violated) msg v \<noteq> [])"
  by (cases v) (simp_all add: truthy_opt_def array_includes_def rule_message_def nonempty_and_def
      media_rule_violated_def)

lemma limit_check_eq:
  "(truthy_opt v \<and> limit_out_of_range (parseInt_opt v))
     = (rule_message (nonempty_and limit_rule_violated) msg v \<noteq> [])"
  by (cases v) (auto simp add: truthy_opt_def parseInt_opt_def rule_message_def nonempty_and_def
      limit_rule_violated_def limit_out_of_range_def split: option.splits)

lemma country_check_eq:
  "(truthy_opt v \<and> \<not> country_regex_test_opt v)
     = (rule_message (nonempty_and country_rule_violated) msg v \<noteq> [])"
  by (cases v) (simp_all add: truthy_opt_def country_regex_test_opt_def rule_message_def
      nonempty_and_def country_rule_violated_def country_regex_test_iff)

lemma rule_message_cases: "rule_message f msg v = [] \<or> rule_message f msg v = [msg]"
  by (cases v) (simp_all add: rule_message_def)

lemma validate_result:
  "validateSearchParams p
     = Inr \<lparr>isValid = (violations_reported p = []), errors = violations_reported p\<rparr>"
proof -
  have m: "rule_message (nonempty_and media_rule_violated) msg_media (p_media p)
           = (if truthy_opt (p_media p) \<and> \<not> array_includes VALID_MEDIA_TYPES (p_media p)
              then [msg_media] else [])"
    using rule_message_cases [of "nonempty_and media_rule_violated" msg_media "p_media p"]
      media_check_eq [of "p_media p" msg_media]
    by auto
  have l: "rule_message (nonempty_and limit_rule_violated) msg_limit (p_limit p)
           = (if truthy_opt (p_limit p) \<and> limit_out_of_range (parseInt_opt (p_limit p))
              then [msg_limit] else [])"
    using rule_message_cases [of "nonempty_and limit_rule_violated" msg_limit "p_limit p"]
      limit_check_eq [of "p_limit p" msg_limit]
    by auto
  have c: "rule_message (nonempty_and country_rule_violated) msg_country (p_country p)
           = (if truthy_opt (p_country p) \<and> \<not> country_regex_test_opt (p_country p)
              then [msg_country] else [])"
    using rule_message_cases [of "nonempty_and country_rule_violated" msg_country "p_country p"]
      country_check_eq [of "p_country p" msg_country]
    by auto
  show ?thesis
    by (simp add: validateSearchParams_def term_missing_eq violations_reported_def m l c Let_def)
qed

lemma msgs_distinct: "msg_limit \<noteq> msg_term" "msg_limit \<noteq> msg_media" "msg_limit \<noteq> msg_country"
  by (simp_all add: msg_limit_def msg_term_def msg_media_def msg_country_def str_def)

lemmas string_eval = str_def is_ws_def trim_def trim_method_def truthy_opt_def typeof_opt_def
  or_default_def array_includes_def digit_val_def radix_digit_def parseInt_def parseInt_opt_def
  is_upper_def country_regex_test_def country_regex_test_opt_def

lemmas rule_eval = term_rule_violated_def media_rule_violated_def limit_rule_violated_def
  country_rule_violated_def rule_message_def nonempty_and_def violations_stated_def
  violations_reported_def VALID_MEDIA_TYPES_def no_params_def

lemma digit10_unat: "radix_digit 10 c \<Longrightarrow> 0x30 \<le> unat c \<and> unat c \<le> 0x39"
  by (auto simp add: radix_digit_def digit_val_def Let_def split: if_splits)

lemma digit10_plain:
  assumes "radix_digit 10 c"
  shows "\<not> is_ws c" and "c \<noteq> 0x2D" and "c \<noteq> 0x2B" and "c \<noteq> 0x78" and "c \<noteq> 0x58"
  using digit10_unat [OF assms]
  by (auto simp add: is_ws_def word_unat_eq_iff word_le_nat_alt)

lemma parseInt_digits:
  assumes "l \<noteq> []" and "list_all (radix_digit 10) l"
  shows "parseInt l = Some (int (foldl (\<lambda>a c. a * 10 + digit_val c) 0 l))"
proof -
  from assms obtain c cs where l: "l = c # cs" and c: "radix_digit 10 c"
    and cs: "list_all (radix_digit 10) cs"
    by (cases l) auto
  note pc = digit10_plain [OF c]
  have tw: "takeWhile (radix_digit 10) cs = cs"
    using cs by (simp add: list_all_iff)
  show ?thesis
  proof (cases cs)
    case Nil
    with pc c show ?thesis
      by (simp add: parseInt_def l str_def Let_def)
  next
    case (Cons d ds)
    with cs have d: "radix_digit 10 d" by simp
    from tw Cons d have twd: "takeWhile (radix_digit 10) ds = ds" by simp
    from pc c d digit10_plain(4,5) [OF d] Cons show ?thesis
      by (simp add: parseInt_def l str_def Let_def twd)
  qed
qed

lemma integer_in_range_accepted: "integer_in_range l \<Longrightarrow> \<not> limit_rule_violated l"
  by (simp add: integer_in_range_def limit_rule_violated_def parseInt_digits)

lemma settled_limit_rule:
  "\<not> lenient_limit l \<Longrightarrow> limit_rule_violated l = limit_rule_strict l"
  using integer_in_range_accepted [of l]
  by (auto simp add: lenient_limit_def limit_rule_strict_def limit_rule_violated_def
      split: option.splits)

lemma settled_violations:
  "limit_settled (p_limit p) \<Longrightarrow> violations_reported p = violations_by_rule p"
  by (cases "p_limit p")
    (simp_all add: violations_reported_def violations_by_rule_def rule_message_def
      nonempty_and_def limit_settled_def settled_limit_rule)

lemma msgs_distinct_sym: "msg_term \<noteq> msg_limit" "msg_media \<noteq> msg_limit" "msg_country \<noteq> msg_limit"
  using msgs_distinct by auto

lemma filter_rule_message:
  "msg \<noteq> msg_limit \<Longrightarrow> filter (\<lambda>m. m \<noteq> msg_limit) (rule_message f msg v) = rule_message f msg v"
  "filter (\<lambda>m. m \<noteq> msg_limit) (rule_message f msg_limit v) = []"
  using rule_message_cases [of f msg v] rule_message_cases [of f msg_limit v] by auto

lemma other_violations:
  "filter (\<lambda>m. m \<noteq> msg_limit) (violations_reported p) = violations_by_rule (p\<lparr>p_limit := None\<rparr>)"
  by (simp add: violations_reported_def violations_by_rule_def filter_rule_message
      msgs_distinct_sym) (simp add: rule_message_def)

text \<open>
  Claim C2, as the code has it. For every input (each of term, media, limit and country
  absent or any string) the validator returns a result and raises nothing, and the result
  is valid exactly when the error list is empty. The messages of the rules for term,
  media and country are all in the list, in the order of the rules, whatever the limit
  is. When the limit is absent, empty, a decimal integer numeral, or rejected by the
  code, the list holds one message for every violated rule: a missing or blank term, a
  non-empty media outside the enumerated set, a non-empty limit that is no decimal
  integer from 1 to 200, a non-empty country that is not two uppercase letters. An empty
  string passes as an absent value does. Nothing is said of the limit message for a
  limit accepted on its numeric prefix only.
\<close>

theorem validateSearchParams_reports_all:
  "\<exists>v. validateSearchParams p = Inr v \<and> isValid v = (errors v = [])
     \<and> filter (\<lambda>m. m \<noteq> msg_limit) (errors v) = violations_by_rule (p\<lparr>p_limit := None\<rparr>)
     \<and> (limit_settled (p_limit p) \<longrightarrow> errors v = violations_by_rule p)"
  by (simp add: validate_result other_violations settled_violations)

lemmas limit_eval = integer_in_range_def limit_rule_strict_def lenient_limit_def
  limit_settled_def violations_by_rule_def

text \<open>All four rules violated at once: all four messages, in order.\<close>

theorem validateSearchParams_reports_all_witness:
  "validateSearchParams
     (no_params\<lparr>p_term := Some (str ''  ''), p_media := Some (str ''radio''),
        p_limit := Some (str ''abc''), p_country := Some (str ''usa'')\<rparr>)
   = Inr \<lparr>isValid = False, errors = [msg_term, msg_media, msg_limit, msg_country]\<rparr>"
proof -
  let ?p = "no_params\<lparr>p_term := Some (str ''  ''), p_media := Some (str ''radio''),
        p_limit := Some (str ''abc''), p_country := Some (str ''usa'')\<rparr>"
  have s: "limit_settled (p_limit ?p)"
    by (simp add: rule_eval limit_eval string_eval)
  have "violations_by_rule ?p = [msg_term, msg_media, msg_limit, msg_country]"
    by (simp add: rule_eval limit_eval string_eval)
  with validateSearchParams_reports_all [of ?p] s show ?thesis
    by auto
qed

text \<open>
  Limits that \<open>parseInt\<close> accepts on their prefix, and limits on which the two rules
  agree.
\<close>

lemma lenient_limit_examples:
  "lenient_limit (str ''12abc'')" "lenient_limit (str ''1e3'')" "lenient_limit (str ''200.9'')"
  "lenient_limit (str ''0x10'')" "\<not> lenient_limit (str ''200'')" "\<not> lenient_limit (str ''abc'')"
  "\<not> lenient_limit (str ''201'')"
  by (simp_all add: rule_eval limit_eval string_eval)

text \<open>
  Claim C2 as stated fails for an empty media value: \<open>{ term: "a", media: "" }\<close> is
  valid with no error, although the empty string is outside the enumerated set.
\<close>

theorem empty_media_not_reported:
  "validateSearchParams (no_params\<lparr>p_term := Some (str ''a''), p_media := Some []\<rparr>)
     = Inr \<lparr>isValid = True, errors = []\<rparr>
   \<and> media_rule_violated []
   \<and> violations_stated (no_params\<lparr>p_term := Some (str ''a''), p_media := Some []\<rparr>) = [msg_media]"
  by (simp add: validate_result rule_eval string_eval)

lemma limit_rule_0: "limit_rule_violated (str ''0'')" "limit_rule_violated (str ''201'')"
  "\<not> limit_rule_violated (str ''1'')" "\<not> limit_rule_violated (str ''200'')"
  by (simp_all add: limit_rule_violated_def string_eval)

lemma msg_limit_notin_others:
  "msg_limit \<notin> set (violations_reported (p\<lparr>p_limit := None\<rparr>))"
proof -
  have "set (rule_message f msg v) \<subseteq> {msg}" for f msg and v :: "jsstring option"
    using rule_message_cases [of f msg v] by auto
  then show ?thesis
    using msgs_distinct by (auto simp add: violations_reported_def rule_message_def split: option.splits if_splits)
qed

lemma violations_limit_ok:
  "\<not> limit_rule_violated l \<Longrightarrow>
     violations_reported (p\<lparr>p_limit := Some l\<rparr>) = violations_reported (p\<lparr>p_limit := None\<rparr>)"
  by (simp add: violations_reported_def rule_message_def nonempty_and_def)

lemma violations_limit_bad:
  "limit_rule_violated l \<Longrightarrow> l \<noteq> [] \<Longrightarrow>
     msg_limit \<in> set (violations_reported (p\<lparr>p_limit := Some l\<rparr>))"
  by (simp add: violations_reported_def rule_message_def nonempty_and_def)

text \<open>
  Claim C8. Whatever the other parameters are, the limits \<open>"0"\<close> and \<open>"201"\<close> produce
  the limit-range error and an invalid result, and the limits \<open>"1"\<close> and \<open>"200"\<close>
  produce no limit error: the result is the one of the same request without a limit, so
  validation succeeds when no other rule is violated.
\<close>

theorem limit_boundaries:
  "(\<exists>v. validateSearchParams (p\<lparr>p_limit := Some (str ''0'')\<rparr>) = Inr v
        \<and> msg_limit \<in> set (errors v) \<and> \<not> isValid v)
   \<and> (\<exists>v. validateSearchParams (p\<lparr>p_limit := Some (str ''201'')\<rparr>) = Inr v
        \<and> msg_limit \<in> set (errors v) \<and> \<not> isValid v)
   \<and> (\<exists>v. validateSearchParams (p\<lparr>p_limit := Some (str ''1'')\<rparr>) = Inr v
        \<and> msg_limit \<notin> set (errors v) \<and> validateSearchParams (p\<lparr>p_limit := None\<rparr>) = Inr v)
   \<and> (\<exists>v. validateSearchParams (p\<lparr>p_limit := Some (str ''200'')\<rparr>) = Inr v
        \<and> msg_limit \<notin> set (errors v) \<and> validateSearchParams (p\<lparr>p_limit := None\<rparr>) = Inr v)"
proof -
  have ne: "str ''0'' \<noteq> []" "str ''201'' \<noteq> []" by (simp_all add: str_def)
  have bad: "msg_limit \<in> set (violations_reported (p\<lparr>p_limit := Some l\<rparr>))
      \<and> violations_reported (p\<lparr>p_limit := Some l\<rparr>) \<noteq> []"
    if "limit_rule_violated l" "l \<noteq> []" for l
    using violations_limit_bad [OF that, of p] by auto
  show ?thesis
    using bad [OF limit_rule_0(1) ne(1)] bad [OF limit_rule_0(2) ne(2)]
      violations_limit_ok [OF limit_rule_0(3), of p] violations_limit_ok [OF limit_rule_0(4), of p]
      msg_limit_notin_others [of p]
    by (simp add: validate_result)
qed

text \<open>With the valid term \<open>Adele\<close> and nothing else: rejected, rejected, accepted, accepted.\<close>

theorem limit_boundaries_witness:
  "validateSearchParams (no_params\<lparr>p_term := Some (str ''Adele''), p_limit := Some (str ''0'')\<rparr>)
     = Inr \<lparr>isValid = False, errors = [msg_limit]\<rparr>
   \<and> validateSearchParams (no_params\<lparr>p_term := Some (str ''Adele''), p_limit := Some (str ''201'')\<rparr>)
     = Inr \<lparr>isValid = False, errors = [msg_limit]\<rparr>
   \<and> validateSearchParams (no_params\<lparr>p_term := Some (str ''Adele''), p_limit := Some (str ''1'')\<rparr>)
     = Inr \<lparr>isValid = True, errors = []\<rparr>
   \<and> validateSearchParams (no_params\<lparr>p_term := Some (str ''Adele''), p_limit := Some (str ''200'')\<rparr>)
     = Inr \<lparr>isValid = True, errors = []\<rparr>"
proof -
  have "validateSearchParams ((no_params\<lparr>p_term := Some (str ''Adele'')\<rparr>)\<lparr>p_limit := None\<rparr>)
     = Inr \<lparr>isValid = True, errors = []\<rparr>"
    by (simp add: validate_result rule_eval string_eval)
  moreover have "validateSearchParams ((no_params\<lparr>p_term := Some (str ''Adele'')\<rparr>)\<lparr>p_limit := Some l\<rparr>)
     = Inr \<lparr>isValid = False, errors = [msg_limit]\<rparr>" if "limit_rule_violated l" "l \<noteq> []" for l
    using that by (simp add: validate_result rule_eval string_eval)
  ultimately show ?thesis
    using limit_boundaries [of "no_params\<lparr>p_term := Some (str ''Adele'')\<rparr>"] limit_rule_0
    by (auto simp add: str_def)
qed

section \<open>The builder\<close>

lemma unat_of_nat16: "n < 65536 \<Longrightarrow> unat (of_nat n :: 16 word) = n"
  by (simp add: unsigned_of_nat take_bit_nat_eq_self)

lemma unat16_bound: "unat (c :: 16 word) < 65536"
  using unsigned_less [of c, where 'a = nat] by simp

lemma plain_unat: "plain c \<longleftrightarrow> unat c \<noteq> 0x26 \<and> unat c \<noteq> 0x3D"
  unfolding plain_def by (simp add: word_unat_eq_iff)

lemma hex_digit_plain: "d < 16 \<Longrightarrow> plain (hex_digit d)"
  unfolding plain_unat hex_digit_def by (simp add: unat_of_nat16)

lemma form_encode_byte_plain:
  assumes "b < 256"
  shows "list_all plain (form_encode_byte b)"
proof -
  have hi: "b div 16 < 16" and lo: "b mod 16 < 16" using assms by simp_all
  have unres: "plain (of_nat b)" if "form_unreserved b"
    using that assms unfolding plain_unat form_unreserved_def
    by (auto simp add: unat_of_nat16)
  show ?thesis
    unfolding form_encode_byte_def
    using hex_digit_plain [OF hi] hex_digit_plain [OF lo] unres
    by (simp add: str_def plain_def)
qed

lemma utf16_decode_bound: "list_all (\<lambda>cp. cp < 0x110000) (utf16_decode s)"
proof (induction s rule: utf16_decode.induct)
  case 1
  then show ?case by simp
next
  case (2 c)
  then show ?case using unat16_bound [of c] by (simp add: scalar_of_unit_def)
next
  case (3 c d cs)
  show ?case
  proof (cases "is_high_surrogate c \<and> is_low_surrogate d")
    case True
    then have "unat c \<le> 0xDBFF" "unat d \<le> 0xDFFF"
      by (simp_all add: is_high_surrogate_def is_low_surrogate_def word_le_nat_alt)
    then have "0x10000 + (unat c - 0xD800) * 0x400 + (unat d - 0xDC00) < (0x110000::nat)"
      by simp
    with True 3 show ?thesis by simp
  next
    case False
    with 3 unat16_bound [of c] show ?thesis by (auto simp add: scalar_of_unit_def)
  qed
qed

lemma utf8_encode_bound:
  assumes "cp < 0x110000"
  shows "list_all (\<lambda>b. b < 256) (utf8_encode cp)"
proof -
  have m: "x mod 0x40 < (0x80::nat)" for x
    by (rule less_trans [OF mod_less_divisor]) simp_all
  have "cp < 0x800 \<Longrightarrow> cp div 0x40 < 0x20" "cp < 0x10000 \<Longrightarrow> cp div 0x1000 < 0x10"
    "cp div 0x40000 < 0x10"
    using assms by (simp_all add: less_mult_imp_div_less)
  with m show ?thesis
    by (auto simp add: utf8_encode_def)
qed

lemma list_all_concat_map:
  "list_all P xs \<Longrightarrow> (\<And>x. P x \<Longrightarrow> list_all Q (f x)) \<Longrightarrow> list_all Q (concat (map f xs))"
  by (induction xs) simp_all

lemma form_encode_plain: "list_all plain (form_encode s)"
  unfolding form_encode_def
  by (rule list_all_concat_map [OF list_all_concat_map [OF utf16_decode_bound utf8_encode_bound]
        form_encode_byte_plain])

lemma split_on_no_sep: "sep \<notin> set x \<Longrightarrow> split_on sep x = [x]"
  by (induction x) auto

lemma split_on_append:
  "sep \<notin> set x \<Longrightarrow> split_on sep (x @ sep # rest) = x # split_on sep rest"
  by (induction x) auto

lemma split_on_join:
  "xs \<noteq> [] \<Longrightarrow> list_all (\<lambda>x. sep \<notin> set x) xs \<Longrightarrow> split_on sep (join [sep] xs) = xs"
proof (induction "[sep]" xs rule: join.induct)
  case 1
  then show ?case by simp
next
  case (2 x)
  then show ?case by (simp add: split_on_no_sep)
next
  case (3 x y ys)
  then show ?case by (simp add: split_on_append)
qed

lemma piece_name: "0x3D \<notin> set n \<Longrightarrow> takeWhile (\<lambda>c. c \<noteq> 0x3D) (n @ 0x3D # v) = n"
  by (induction n) auto

lemma piece_value: "0x3D \<notin> set n \<Longrightarrow> dropWhile (\<lambda>c. c \<noteq> 0x3D) (n @ 0x3D # v) = 0x3D # v"
  by (induction n) auto

lemma plain_no_amp: "list_all plain s \<Longrightarrow> 0x26 \<notin> set s"
  by (auto simp add: list_all_iff plain_def)

lemma plain_no_eq: "list_all plain s \<Longrightarrow> 0x3D \<notin> set s"
  by (auto simp add: list_all_iff plain_def)

lemma url_query_endpoint: "url_query (ITUNES_SEARCH_ENDPOINT @ str ''?'' @ q) = q"
  by (simp add: url_query_def ITUNES_SEARCH_ENDPOINT_def ITUNES_BASE_URL_def str_def)

lemma url_params_sp_toString:
  assumes "sp \<noteq> []"
  shows "url_params (ITUNES_SEARCH_ENDPOINT @ str ''?'' @ sp_toString sp)
           = map (\<lambda>(n, v). (form_encode n, form_encode v)) sp"
proof -
  let ?pieces = "map (\<lambda>(n, v). form_encode n @ str ''='' @ form_encode v) sp"
  have amp: "list_all (\<lambda>x. 0x26 \<notin> set x) ?pieces"
    using plain_no_amp [OF form_encode_plain]
    by (auto simp add: list_all_iff str_def)
  have pieces: "split_on 0x26 (sp_toString sp) = ?pieces"
    using split_on_join [OF _ amp] assms by (simp add: sp_toString_def str_def)
  show ?thesis
    unfolding url_params_def url_query_endpoint pieces
    using plain_no_eq [OF form_encode_plain]
    by (simp add: str_def piece_name piece_value case_prod_unfold)
qed

lemma valid_media_entities:
  "m \<in> set VALID_MEDIA_TYPES \<Longrightarrow> validEntities_of m = Inr (entity_set m)"
  by (auto simp add: VALID_MEDIA_TYPES_def validEntities_of_def entity_set_def MEDIA_ENTITIES_def
      str_def)

lemma valid_effective_media:
  assumes "violations_reported p = []"
  shows "or_default (p_media p) (str ''all'') = effective_media p"
    and "effective_media p \<in> set VALID_MEDIA_TYPES"
proof -
  show "or_default (p_media p) (str ''all'') = effective_media p"
    by (simp add: or_default_def effective_media_def truthy_opt_def split: option.splits)
  have "rule_message (nonempty_and media_rule_violated) msg_media (p_media p) = []"
    using assms by (simp add: violations_reported_def)
  then have "m \<in> set VALID_MEDIA_TYPES" if "p_media p = Some m" "m \<noteq> []" for m
    using that by (simp add: rule_message_def nonempty_and_def media_rule_violated_def split: if_splits)
  moreover have "str ''all'' \<in> set VALID_MEDIA_TYPES"
    by (simp add: VALID_MEDIA_TYPES_def)
  ultimately show "effective_media p \<in> set VALID_MEDIA_TYPES"
    by (auto simp add: effective_media_def split: option.splits)
qed

lemma valid_term: "violations_reported p = [] \<Longrightarrow> \<exists>t. p_term p = Some t"
  by (cases "p_term p") (simp_all add: violations_reported_def term_rule_violated_def)

lemma entity_set_nonempty_strings: "[] \<notin> set (entity_set m)"
proof (cases "map_of MEDIA_ENTITIES m")
  case None
  then show ?thesis by (simp add: entity_set_def)
next
  case (Some es)
  then have "(m, es) \<in> set MEDIA_ENTITIES" by (rule map_of_SomeD)
  then have "[] \<notin> set es"
    by (auto simp add: MEDIA_ENTITIES_def str_def)
  with Some show ?thesis by (simp add: entity_set_def)
qed

lemma buildSearchParams_valid:
  assumes "violations_reported p = []" and "p_term p = Some t"
  shows "buildSearchParams p
           = Inr (base_params p t
                  @ (if entity_supplied_in p (effective_media p)
                     then [(str ''entity'', or_default (p_entity p) [])] else []))"
proof -
  note em = valid_effective_media [OF assms(1)]
  have ve: "validEntities_of (effective_media p) = Inr (entity_set (effective_media p))"
    by (rule valid_media_entities [OF em(2)])
  show ?thesis
  proof (cases "p_entity p")
    case None
    with assms(2) show ?thesis
      by (simp add: buildSearchParams_def trim_method_def sp_append_def em(1) base_params_def
          entity_supplied_in_def)
  next
    case (Some e)
    show ?thesis
    proof (cases "e = []")
      case True
      with Some assms(2) entity_set_nonempty_strings [of "effective_media p"] show ?thesis
        by (simp add: buildSearchParams_def trim_method_def sp_append_def em(1) base_params_def
            entity_supplied_in_def)
    next
      case False
      then have oe: "or_default (Some e) [] = e"
        by (simp add: or_default_def truthy_opt_def)
      from Some False assms(2) show ?thesis
        by (simp add: buildSearchParams_def trim_method_def sp_append_def em(1) ve oe
            base_params_def entity_supplied_in_def array_includes_def Let_def)
    qed
  qed
qed

lemma form_encode_names:
  "form_encode (str ''term'') = str ''term''" "form_encode (str ''media'') = str ''media''"
  "form_encode (str ''limit'') = str ''limit''" "form_encode (str ''country'') = str ''country''"
  "form_encode (str ''explicit'') = str ''explicit''" "form_encode (str ''entity'') = str ''entity''"
  by (simp_all add: form_encode_def str_def scalar_of_unit_def is_high_surrogate_def
      is_low_surrogate_def utf8_encode_def form_encode_byte_def form_unreserved_def)

lemma entity_not_base:
  "str ''entity'' \<notin> set [str ''term'', str ''media'', str ''limit'', str ''country'', str ''explicit'']"
  by (simp add: str_def)

text \<open>
  Claim C6, as the code has it. For every query that passes validation the builder
  returns a URL and raises nothing, and the URL has an \<open>entity\<close> parameter exactly when
  an entity is supplied and belongs to the entity set of the effective media type: the
  supplied media, or \<open>all\<close> when media is absent or the empty string.
\<close>

theorem entity_parameter_filter:
  assumes "validateSearchParams p = Inr v" and "isValid v"
  shows "\<exists>url. buildItunesUrl p = Inr url
           \<and> url_has_param (str ''entity'') url = entity_supplied_in p (effective_media p)"
proof -
  from assms have valid: "violations_reported p = []"
    by (auto simp add: validate_result)
  from valid_term [OF valid] obtain t where t: "p_term p = Some t" ..
  let ?sp = "base_params p t
              @ (if entity_supplied_in p (effective_media p)
                 then [(str ''entity'', or_default (p_entity p) [])] else [])"
  have sp: "buildSearchParams p = Inr ?sp"
    by (rule buildSearchParams_valid [OF valid t])
  have ne: "?sp \<noteq> []" by (simp add: base_params_def)
  have names: "map fst (map (\<lambda>(n, v). (form_encode n, form_encode v)) ?sp)
      = [str ''term'', str ''media'', str ''limit'', str ''country'', str ''explicit'']
        @ (if entity_supplied_in p (effective_media p) then [str ''entity''] else [])"
    by (simp add: base_params_def form_encode_names)
  have up: "url_params (ITUNES_SEARCH_ENDPOINT @ str ''?'' @ sp_toString ?sp)
      = map (\<lambda>(n, v). (form_encode n, form_encode v)) ?sp"
    by (rule url_params_sp_toString [OF ne])
  have url: "buildItunesUrl p = Inr (ITUNES_SEARCH_ENDPOINT @ str ''?'' @ sp_toString ?sp)"
    by (simp only: buildItunesUrl_def sp sum.case)
  have "url_has_param (str ''entity'') (ITUNES_SEARCH_ENDPOINT @ str ''?'' @ sp_toString ?sp)
      = entity_supplied_in p (effective_media p)"
    unfolding url_has_param_def up names using entity_not_base by simp
  with url show ?thesis by blast
qed

lemmas url_eval = buildItunesUrl_def buildSearchParams_def sp_append_def sp_toString_def
  form_encode_def scalar_of_unit_def is_high_surrogate_def is_low_surrogate_def utf8_encode_def
  form_encode_byte_def form_unreserved_def hex_digit_def validEntities_of_def MEDIA_ENTITIES_def
  Object_prototype_names_def ITUNES_SEARCH_ENDPOINT_def ITUNES_BASE_URL_def
  url_params_def url_query_def url_has_param_def entity_set_def entity_supplied_in_def
  effective_media_def effective_media_stated_def

text \<open>Scenario 5: the entity \<open>podcast\<close> with the media \<open>music\<close> is left out.\<close>

theorem entity_parameter_filter_witness:
  "buildItunesUrl (no_params\<lparr>p_term := Some (str ''Adele''), p_media := Some (str ''music''),
      p_entity := Some (str ''podcast'')\<rparr>)
     = Inr (str ''https://itunes.apple.com/search?term=Adele&media=music&limit=50&country=US&explicit=Yes'')
   \<and> \<not> url_has_param (str ''entity'')
         (str ''https://itunes.apple.com/search?term=Adele&media=music&limit=50&country=US&explicit=Yes'')"
proof -
  let ?p = "no_params\<lparr>p_term := Some (str ''Adele''), p_media := Some (str ''music''),
      p_entity := Some (str ''podcast'')\<rparr>"
  have v: "validateSearchParams ?p = Inr \<lparr>isValid = True, errors = []\<rparr>"
    by (simp add: validate_result rule_eval string_eval)
  have u: "buildItunesUrl ?p
     = Inr (str ''https://itunes.apple.com/search?term=Adele&media=music&limit=50&country=US&explicit=Yes'')"
    by (simp add: url_eval no_params_def string_eval)
  have e: "\<not> entity_supplied_in ?p (effective_media ?p)"
    by (simp add: url_eval no_params_def string_eval)
  from entity_parameter_filter [OF v] u e show ?thesis by auto
qed

text \<open>
  Claim C6 as stated fails for an empty media value: \<open>{ term: "a", media: "",
  entity: "movie" }\<close> passes validation and its URL carries \<open>entity=movie\<close>, although
  no entity set is mapped from the supplied media \<open>""\<close>.
\<close>

theorem empty_media_entity_kept:
  "validateSearchParams (no_params\<lparr>p_term := Some (str ''a''), p_media := Some [],
      p_entity := Some (str ''movie'')\<rparr>) = Inr \<lparr>isValid = True, errors = []\<rparr>
   \<and> buildItunesUrl (no_params\<lparr>p_term := Some (str ''a''), p_media := Some [],
      p_entity := Some (str ''movie'')\<rparr>)
     = Inr (str ''https://itunes.apple.com/search?term=a&media=all&limit=50&country=US&explicit=Yes&entity=movie'')
   \<and> url_has_param (str ''entity'')
       (str ''https://itunes.apple.com/search?term=a&media=all&limit=50&country=US&explicit=Yes&entity=movie'')
   \<and> \<not> entity_supplied_in (no_params\<lparr>p_term := Some (str ''a''), p_media := Some [],
      p_entity := Some (str ''movie'')\<rparr>)
       (effective_media_stated (no_params\<lparr>p_term := Some (str ''a''), p_media := Some [],
      p_entity := Some (str ''movie'')\<rparr>))"
  by (simp add: validate_result rule_eval url_eval string_eval)

text \<open>
  Claim C7. Scenario 1: the URL of \<open>{ term: "Adele", media: "music", limit: "5" }\<close> has
  exactly the query string \<open>term=Adele&media=music&limit=5&country=US&explicit=Yes\<close>,
  five parameters in this order and no \<open>entity\<close>. A term alone shows the defaults,
  the trimming and the encoding.
\<close>

theorem scenario_adele:
  "buildItunesUrl (no_params\<lparr>p_term := Some (str ''Adele''), p_media := Some (str ''music''),
      p_limit := Some (str ''5'')\<rparr>)
     = Inr (str ''https://itunes.apple.com/search?term=Adele&media=music&limit=5&country=US&explicit=Yes'')
   \<and> url_params (str ''https://itunes.apple.com/search?term=Adele&media=music&limit=5&country=US&explicit=Yes'')
     = [(str ''term'', str ''Adele''), (str ''media'', str ''music''), (str ''limit'', str ''5''),
        (str ''country'', str ''US''), (str ''explicit'', str ''Yes'')]
   \<and> buildItunesUrl (no_params\<lparr>p_term := Some (str '' AC/DC live '')\<rparr>)
     = Inr (str ''https://itunes.apple.com/search?term=AC%2FDC+live&media=all&limit=50&country=US&explicit=Yes'')"
  by (simp add: url_eval no_params_def string_eval)

section \<open>The normalizer\<close>

lemma enhanced_object_derived:
  "obj_get (enhanced_object rt item a r f) (str ''artworkUrl'') = a"
  "obj_get (enhanced_object rt item a r f) (str ''releaseDate'') = r"
  "obj_get (enhanced_object rt item a r f) (str ''formattedPrice'') = f"
  "obj_get (enhanced_object rt item a r f) (str ''mediaType'') = mediaType_of rt item"
  "obj_get (enhanced_object rt item a r f) (str ''primaryGenre'') = primaryGenre_of rt item"
  "obj_get (enhanced_object rt item a r f) (str ''uniqueId'') = uniqueId_of rt item"
  by (simp_all add: obj_get_def enhanced_object_def update_conv' str_def)

lemma enhanced_object_frame:
  "k \<notin> set derived_keys \<Longrightarrow> map_of (enhanced_object rt item a r f) k = map_of (spread item) k"
  by (simp add: enhanced_object_def update_conv' derived_keys_def)

lemma enhanced_object_dom:
  "k \<in> set derived_keys \<Longrightarrow> k \<in> dom (map_of (enhanced_object rt item a r f))"
  by (auto simp add: enhanced_object_def update_conv' derived_keys_def)

lemma enhance_Inr:
  assumes "enhance rt item = Inr out"
  shows "\<exists>a r f. artworkUrl_of rt item = Inr a \<and> releaseDate_of rt item = Inr r
           \<and> formattedPrice_of rt item = Inr f \<and> \<not> nullish item
           \<and> out = JObj (enhanced_object rt item a r f)"
  using assms
  by (auto simp add: enhance_def enhanced_object_def split: if_splits sum.splits)

lemma replace_first_empty_iff:
  "pat \<noteq> [] \<Longrightarrow> rep \<noteq> [] \<Longrightarrow> replace_first pat rep s = [] \<longleftrightarrow> s = []"
  by (cases s) auto

lemma opt_replace_step:
  assumes "opt_replace token (str ''300x300'') v = Inr x" and "token \<noteq> []"
  shows "(truthy rt x \<and> (\<exists>u. upgraded token v = Some u \<and> x = JStr u))
         \<or> (\<not> truthy rt x \<and> upgraded token v = None)"
  using assms
  by (cases v) (auto simp add: opt_replace_def upgraded_def replace_first_empty_iff str_def)

lemma artworkUrl_of_computed:
  assumes "artworkUrl_of rt item = Inr a"
  shows "a = artworkUrl_computed item"
proof -
  have t: "str ''100x100'' \<noteq> []" "str ''60x60'' \<noteq> []" "str ''30x30'' \<noteq> []"
    by (simp_all add: str_def)
  note s1 = opt_replace_step [OF _ t(1), of "field item (str ''artworkUrl100'')" _ rt]
  note s2 = opt_replace_step [OF _ t(2), of "field item (str ''artworkUrl60'')" _ rt]
  note s3 = opt_replace_step [OF _ t(3), of "field item (str ''artworkUrl30'')" _ rt]
  from assms show ?thesis
    unfolding artworkUrl_of_def artworkUrl_computed_def
    by (auto split: sum.splits if_splits dest!: s1 s2 s3)
qed

lemma field_enhanced: "field (JObj kvs) k = obj_get kvs k"
  by (simp add: field_def)

text \<open>
  A well-formed record normalizes, and a well-formed body is processed, without an
  exception.
\<close>

lemma to_string_scalar: "scalar v \<Longrightarrow> \<exists>s. to_string rt v = Inr s"
  by (cases v) (simp_all add: scalar_def)

lemma opt_replace_text: "text_or_missing v \<Longrightarrow> \<exists>x. opt_replace pat rep v = Inr x"
  by (cases v) (simp_all add: text_or_missing_def opt_replace_def)

lemma new_Date_scalar: "scalar v \<Longrightarrow> \<exists>d. new_Date rt v = Inr d"
  by (cases v) (simp_all add: scalar_def new_Date_def)

lemma gt_zero_scalar: "scalar v \<Longrightarrow> \<exists>b. gt_zero rt v = Inr b"
  by (cases v) (auto simp add: scalar_def gt_zero_def)

lemma enhance_total:
  assumes "well_formed_record item"
  shows "\<exists>out. enhance rt item = Inr out"
proof -
  from assms have obj: "\<not> nullish item"
    by (cases item) (simp_all add: well_formed_record_def nullish_def)
  from assms obtain a b c where
    "opt_replace (str ''100x100'') (str ''300x300'') (field item (str ''artworkUrl100'')) = Inr a"
    "opt_replace (str ''60x60'') (str ''300x300'') (field item (str ''artworkUrl60'')) = Inr b"
    "opt_replace (str ''30x30'') (str ''300x300'') (field item (str ''artworkUrl30'')) = Inr c"
    unfolding well_formed_record_def
    using opt_replace_text [of "field item (str ''artworkUrl100'')"]
      opt_replace_text [of "field item (str ''artworkUrl60'')"]
      opt_replace_text [of "field item (str ''artworkUrl30'')"]
    by metis
  then have art: "\<exists>x. artworkUrl_of rt item = Inr x"
    by (simp add: artworkUrl_of_def)
  from assms have rel: "\<exists>x. releaseDate_of rt item = Inr x"
    using new_Date_scalar [of "field item (str ''releaseDate'')" rt]
    by (auto simp add: well_formed_record_def releaseDate_of_def)
  from assms have price: "\<exists>x. formattedPrice_of rt item = Inr x"
    using to_string_scalar [of "field item (str ''trackPrice'')" rt]
      to_string_scalar [of "field item (str ''collectionPrice'')" rt]
    by (auto simp add: well_formed_record_def formattedPrice_of_def)
  from obj art rel price show ?thesis
    by (auto simp add: enhance_def)
qed

lemma map_result_total:
  "list_all (\<lambda>x. \<exists>y. f x = Inr y) xs \<Longrightarrow> \<exists>ys. map_result f xs = Inr ys"
  by (induction xs) auto

lemma process_total:
  assumes "well_formed_body data"
  shows "\<exists>r. processItunesResponse rt data = Inr r"
proof -
  from assms have obj: "\<not> nullish data"
    by (cases data) (simp_all add: well_formed_body_def nullish_def)
  let ?res = "if truthy rt (field data (str ''results'')) then field data (str ''results'') else JArr []"
  from assms obtain items where items: "?res = JArr items" "list_all well_formed_record items"
    by (cases "field data (str ''results'')") (auto simp add: well_formed_body_def)
  from items(2) have "list_all (\<lambda>x. \<exists>y. enhance rt x = Inr y) items"
    using enhance_total [of _ rt] by (simp add: list_all_iff)
  from map_result_total [OF this] obtain ys where ys: "map_result (enhance rt) items = Inr ys" ..
  let ?count = "if truthy rt (field data (str ''resultCount'')) then field data (str ''resultCount'')
                else JNum (num_zero rt)"
  from assms have "scalar ?count"
    by (simp add: well_formed_body_def scalar_def)
  from gt_zero_scalar [OF this] obtain b where b: "gt_zero rt ?count = Inr b" ..
  from obj items(1) ys b show ?thesis
    by (simp add: processItunesResponse_def Let_def)
qed

lemmas item_eval = normalized_field_def enhance_def artworkUrl_of_def releaseDate_of_def
  formattedPrice_of_def mediaType_of_def primaryGenre_of_def uniqueId_of_def field_def obj_get_def
  opt_replace_def opt_index0_def nullish_def spread_def new_Date_def toLocaleDateString_def
  gt_zero_def processItunesResponse_def raw_results_def artworkUrl_stated_def
  artworkUrl_computed_def upgraded_def releaseDate_stated_def releaseDate_computed_def

lemmas runtime_eval = example_runtime_def int_dec_def nat_dec.simps dec_val_def iso_parse_def
  en_US_date_def civil_from_days_def days_from_civil_def days_in_month_def radix_digit_def
  digit_val_def is_ws_def trim_def

text \<open>
  Claim C3, as the code has it. A well-formed record normalizes. The artwork URL of a
  normalized record is the first non-empty string among \<open>artworkUrl100\<close>,
  \<open>artworkUrl60\<close> and \<open>artworkUrl30\<close>, taken in this order, with the first occurrence
  of its size token (\<open>100x100\<close>, \<open>60x60\<close>, \<open>30x30\<close>) replaced by \<open>300x300\<close>; when none
  of the three is a non-empty string it is the value of \<open>artworkUrl100\<close> itself
  (\<open>undefined\<close> when that is absent). In particular a record whose only artwork property
  is a non-empty \<open>artworkUrl60\<close> gets that string with \<open>60x60\<close> replaced.
\<close>

theorem artworkUrl_first_nonempty:
  "(well_formed_record item \<longrightarrow> (\<exists>out. enhance rt item = Inr out))
   \<and> (\<forall>out. enhance rt item = Inr out \<longrightarrow>
         field out (str ''artworkUrl'') = artworkUrl_computed item
         \<and> (\<forall>s. field item (str ''artworkUrl100'') = JUndefined
                \<and> field item (str ''artworkUrl30'') = JUndefined
                \<and> field item (str ''artworkUrl60'') = JStr s \<and> s \<noteq> []
              \<longrightarrow> field out (str ''artworkUrl'')
                    = JStr (replace_first (str ''60x60'') (str ''300x300'') s)))"
proof -
  have "field out (str ''artworkUrl'') = artworkUrl_computed item"
    if "enhance rt item = Inr out" for out
  proof -
    from enhance_Inr [OF that] obtain a r f where
      a: "artworkUrl_of rt item = Inr a" and out: "out = JObj (enhanced_object rt item a r f)"
      by blast
    have "field out (str ''artworkUrl'') = a"
      by (simp add: out field_enhanced enhanced_object_derived)
    then show ?thesis
      using artworkUrl_of_computed [OF a] by simp
  qed
  moreover have "artworkUrl_computed item = JStr (replace_first (str ''60x60'') (str ''300x300'') s)"
    if "field item (str ''artworkUrl100'') = JUndefined" "field item (str ''artworkUrl30'') = JUndefined"
      "field item (str ''artworkUrl60'') = JStr s" "s \<noteq> []" for s
    using that by (simp add: artworkUrl_computed_def upgraded_def)
  ultimately show ?thesis
    using enhance_total [of item rt] by simp
qed

text \<open>A collection with a 60x60 artwork only.\<close>

theorem artworkUrl_first_nonempty_witness:
  "normalized_field example_runtime
     (JObj [(str ''collectionId'', JNum 7), (str ''artworkUrl60'', JStr (str ''https://a.test/60x60bb.jpg''))])
     (str ''artworkUrl'')
   = Inr (JStr (str ''https://a.test/300x300bb.jpg''))"
proof -
  let ?item = "JObj [(str ''collectionId'', JNum 7),
                     (str ''artworkUrl60'', JStr (str ''https://a.test/60x60bb.jpg''))] :: int jsval"
  note t = artworkUrl_first_nonempty [of ?item example_runtime]
  have "well_formed_record ?item"
    by code_simp
  with t obtain out where e: "enhance example_runtime ?item = Inr out"
    by blast
  have "field ?item (str ''artworkUrl100'') = JUndefined"
    "field ?item (str ''artworkUrl30'') = JUndefined"
    "field ?item (str ''artworkUrl60'') = JStr (str ''https://a.test/60x60bb.jpg'')"
    "str ''https://a.test/60x60bb.jpg'' \<noteq> []"
    by (simp_all add: field_def obj_get_def str_def)
  with t e
  have "field out (str ''artworkUrl'')
      = JStr (replace_first (str ''60x60'') (str ''300x300'') (str ''https://a.test/60x60bb.jpg''))"
    by blast
  also have "\<dots> = JStr (str ''https://a.test/300x300bb.jpg'')"
    by (simp add: str_def)
  finally show ?thesis
    using e by (simp add: normalized_field_def)
qed

text \<open>
  Claim C3 as stated fails twice. An artist record, which has no artwork property, gets
  the artwork URL \<open>undefined\<close>, not \<open>null\<close>; and a record with an empty \<open>artworkUrl100\<close>
  and a 60x60 artwork gets the upgraded 60x60 URL, not the empty string.
\<close>

theorem artworkUrl_absent_is_undefined:
  "normalized_field example_runtime
     (JObj [(str ''wrapperType'', JStr (str ''artist'')), (str ''artistId'', JNum 909253)])
     (str ''artworkUrl'') = Inr JUndefined
   \<and> artworkUrl_stated
       (JObj [(str ''wrapperType'', JStr (str ''artist'')), (str ''artistId'', JNum (909253 :: int))])
     = JNull
   \<and> normalized_field example_runtime
       (JObj [(str ''artworkUrl100'', JStr []),
              (str ''artworkUrl60'', JStr (str ''https://a.test/60x60bb.jpg''))])
       (str ''artworkUrl'') = Inr (JStr (str ''https://a.test/300x300bb.jpg''))
   \<and> artworkUrl_stated
       (JObj [(str ''artworkUrl100'', JStr []),
              (str ''artworkUrl60'', JStr (str ''https://a.test/60x60bb.jpg'')) :: jsstring \<times> int jsval])
     = JStr []"
  by (simp add: item_eval runtime_eval str_def)

text \<open>
  Claim C4 fails on the code for the price 0. A free track (\<open>trackPrice: 0\<close>) has a
  track-level price whose string form is \<open>0\<close>, yet its formatted price is \<open>N/A\<close>, and
  with a collection price of 9 it is \<open>9\<close>: the test \<open>item.trackPrice ? ... : ...\<close> takes
  the number 0 for an absent price.
\<close>

theorem free_track_price_not_formatted:
  "normalized_field example_runtime
     (JObj [(str ''trackId'', JNum 42), (str ''trackName'', JStr (str ''X'')),
            (str ''trackPrice'', JNum 0)])
     (str ''formattedPrice'') = Inr (JStr (str ''N/A''))
   \<and> to_string example_runtime (JNum 0) = Inr (str ''0'')
   \<and> normalized_field example_runtime
     (JObj [(str ''trackId'', JNum 42), (str ''trackPrice'', JNum 0),
            (str ''collectionPrice'', JNum 9)])
     (str ''formattedPrice'') = Inr (JStr (str ''9''))"
  by (simp add: item_eval runtime_eval str_def)

text \<open>
  What the code does compute: the string form of the track price when that is truthy,
  else of the collection price when that is truthy, else \<open>N/A\<close>.
\<close>

lemma formattedPrice_rule:
  assumes "enhance rt item = Inr out"
  shows "field out (str ''formattedPrice'')
     = (if truthy rt (field item (str ''trackPrice''))
        then (case to_string rt (field item (str ''trackPrice'')) of Inr s \<Rightarrow> JStr s | Inl e \<Rightarrow> JUndefined)
        else if truthy rt (field item (str ''collectionPrice''))
        then (case to_string rt (field item (str ''collectionPrice'')) of Inr s \<Rightarrow> JStr s | Inl e \<Rightarrow> JUndefined)
        else JStr (str ''N/A''))"
proof -
  from enhance_Inr [OF assms] obtain a r f where
    f: "formattedPrice_of rt item = Inr f" and out: "out = JObj (enhanced_object rt item a r f)"
    by blast
  have "field out (str ''formattedPrice'') = f"
    by (simp add: out field_enhanced enhanced_object_derived)
  with f show ?thesis
    by (auto simp add: formattedPrice_of_def split: if_splits sum.splits)
qed

text \<open>Scenario 3 of the specification.\<close>

lemma scenario_3:
  "enhance example_runtime
     (JObj [(str ''trackId'', JNum 42), (str ''trackName'', JStr (str ''X'')),
            (str ''artworkUrl100'', JStr (str ''https://a.test/100x100bb.jpg''))])
   = Inr (JObj [(str ''trackId'', JNum 42), (str ''trackName'', JStr (str ''X'')),
            (str ''artworkUrl100'', JStr (str ''https://a.test/100x100bb.jpg'')),
            (str ''artworkUrl'', JStr (str ''https://a.test/300x300bb.jpg'')),
            (str ''releaseDate'', JNull),
            (str ''formattedPrice'', JStr (str ''N/A'')),
            (str ''mediaType'', JStr (str ''unknown'')),
            (str ''primaryGenre'', JStr (str ''Unknown'')),
            (str ''uniqueId'', JNum 42)])"
  by (simp add: item_eval runtime_eval str_def)

lemma releaseDate_of_string:
  "field item (str ''releaseDate'') = JStr s \<Longrightarrow>
     releaseDate_of rt item = Inr (releaseDate_computed rt s)"
  by (simp add: releaseDate_of_def releaseDate_computed_def new_Date_def toLocaleDateString_def
      split: option.splits)

lemma releaseDate_of_absent:
  "field item (str ''releaseDate'') = JUndefined \<Longrightarrow> releaseDate_of rt item = Inr JNull"
  by (simp add: releaseDate_of_def)

text \<open>
  Claim C5, as the code has it. For a record without \<open>releaseDate\<close> the release date is
  \<open>null\<close>. For a record whose \<open>releaseDate\<close> is a string, computing the release date
  raises nothing, and the result is \<open>null\<close> for the empty string, the locale-formatted
  date when the string parses, and the text \<open>Invalid Date\<close> when it does not.
\<close>

theorem releaseDate_never_raises:
  "(field item (str ''releaseDate'') = JUndefined \<longrightarrow>
      releaseDate_of rt item = Inr JNull
      \<and> (\<forall>out. enhance rt item = Inr out \<longrightarrow> field out (str ''releaseDate'') = JNull))
   \<and> (\<forall>s. field item (str ''releaseDate'') = JStr s \<longrightarrow>
      releaseDate_of rt item = Inr (releaseDate_computed rt s)
      \<and> (\<forall>out. enhance rt item = Inr out \<longrightarrow>
            field out (str ''releaseDate'') = releaseDate_computed rt s))"
proof -
  have "field out (str ''releaseDate'') = r"
    if "enhance rt item = Inr out" "releaseDate_of rt item = Inr r" for out r
    using enhance_Inr [OF that(1)] that(2)
    by (auto simp add: field_enhanced enhanced_object_derived)
  then show ?thesis
    using releaseDate_of_string [of item _ rt] releaseDate_of_absent [of item rt]
    by blast
qed

text \<open>The date-time of an upstream record, and a record without one.\<close>

theorem releaseDate_never_raises_witness:
  "releaseDate_of example_runtime (JObj [(str ''releaseDate'', JStr (str ''2011-01-24T08:00:00Z''))])
     = Inr (JStr (str ''1/24/2011''))
   \<and> normalized_field example_runtime
       (JObj [(str ''releaseDate'', JStr (str ''2011-01-24T08:00:00Z''))]) (str ''releaseDate'')
     = Inr (JStr (str ''1/24/2011''))
   \<and> releaseDate_of example_runtime (JObj []) = Inr JNull"
proof -
  let ?item = "JObj [(str ''releaseDate'', JStr (str ''2011-01-24T08:00:00Z''))] :: int jsval"
  have f: "field ?item (str ''releaseDate'') = JStr (str ''2011-01-24T08:00:00Z'')"
    by (simp add: field_def obj_get_def)
  have c: "releaseDate_computed example_runtime (str ''2011-01-24T08:00:00Z'') = JStr (str ''1/24/2011'')"
    by code_simp
  have "\<not> isl (enhance example_runtime ?item)"
    by code_simp
  then obtain out where e: "enhance example_runtime ?item = Inr out"
    by (cases "enhance example_runtime ?item") auto
  have u: "field (JObj [] :: int jsval) (str ''releaseDate'') = JUndefined"
    by (simp add: field_def obj_get_def)
  from releaseDate_never_raises [of ?item example_runtime] f e
  have "releaseDate_of example_runtime ?item
          = Inr (releaseDate_computed example_runtime (str ''2011-01-24T08:00:00Z''))"
    and "field out (str ''releaseDate'') = releaseDate_computed example_runtime (str ''2011-01-24T08:00:00Z'')"
    by blast+
  moreover from releaseDate_never_raises [of "JObj []" example_runtime] u
  have "releaseDate_of example_runtime (JObj []) = Inr JNull"
    by blast
  ultimately show ?thesis
    using e by (simp add: c normalized_field_def)
qed

text \<open>
  Claim C5 as stated fails for a string that is no date: the release date of
  \<open>{ releaseDate: "not a date" }\<close> is the string \<open>Invalid Date\<close>, not \<open>null\<close>.
\<close>

theorem unparseable_releaseDate_is_text:
  "normalized_field example_runtime (JObj [(str ''releaseDate'', JStr (str ''not a date''))])
     (str ''releaseDate'') = Inr (JStr (str ''Invalid Date''))
   \<and> date_parse example_runtime (str ''not a date'') = None
   \<and> releaseDate_stated example_runtime (str ''not a date'') = JNull"
  by (simp add: item_eval runtime_eval str_def)

lemma map_result_Inr:
  "map_result f xs = Inr ys \<Longrightarrow> length ys = length xs \<and> (\<forall>i<length xs. f (xs ! i) = Inr (ys ! i))"
proof (induction xs arbitrary: ys)
  case Nil
  then show ?case by simp
next
  case (Cons x xs)
  from Cons.prems obtain y ys' where y: "f x = Inr y" and ys': "map_result f xs = Inr ys'"
    and ys: "ys = y # ys'"
    by (auto split: sum.splits)
  from Cons.IH [OF ys'] y ys show ?case
    by (auto simp add: nth_Cons split: nat.splits)
qed

lemma process_Inr:
  assumes "processItunesResponse rt data = Inr r"
  shows "map_result (enhance rt) (raw_results data) = Inr (results r)"
proof (cases "truthy rt (field data (str ''results''))")
  case True
  with assms show ?thesis
    by (cases "field data (str ''results'')")
      (auto simp add: processItunesResponse_def raw_results_def Let_def split: if_splits sum.splits)
next
  case False
  then have "raw_results data = []"
    by (cases "field data (str ''results'')") (auto simp add: raw_results_def)
  with False assms show ?thesis
    by (auto simp add: processItunesResponse_def Let_def split: if_splits sum.splits)
qed

text \<open>
  Claim C10. A well-formed body is processed. Whenever the normalizer returns, its
  results are as many as the upstream records and in their order: the i-th result is
  the normalized i-th record. Each result is an object that has the six derived keys,
  and for every other key it holds what the raw record holds (the same value, or nothing
  where the raw record has nothing).
\<close>

theorem raw_fields_pass_through:
  "(well_formed_body data \<longrightarrow> (\<exists>r. processItunesResponse rt data = Inr r))
   \<and> (\<forall>r. processItunesResponse rt data = Inr r \<longrightarrow>
         length (results r) = length (raw_results data)
         \<and> (\<forall>i<length (raw_results data).
              enhance rt (raw_results data ! i) = Inr (results r ! i)
              \<and> (\<exists>out. results r ! i = JObj out
                    \<and> (\<forall>k\<in>set derived_keys. k \<in> dom (map_of out))
                    \<and> (\<forall>kvs k. raw_results data ! i = JObj kvs \<and> k \<notin> set derived_keys
                          \<longrightarrow> map_of out k = map_of kvs k))))"
proof -
  have frame: "\<exists>out. y = JObj out \<and> (\<forall>k\<in>set derived_keys. k \<in> dom (map_of out))
          \<and> (\<forall>kvs k. x = JObj kvs \<and> k \<notin> set derived_keys \<longrightarrow> map_of out k = map_of kvs k)"
    if "enhance rt x = Inr y" for x y
  proof -
    from enhance_Inr [OF that] obtain a r f where "y = JObj (enhanced_object rt x a r f)"
      by blast
    then show ?thesis
      using enhanced_object_dom [of _ rt x a r f] enhanced_object_frame [of _ rt x a r f]
      by (auto simp add: spread_def)
  qed
  have "length (results r) = length (raw_results data)
         \<and> (\<forall>i<length (raw_results data).
              enhance rt (raw_results data ! i) = Inr (results r ! i)
              \<and> (\<exists>out. results r ! i = JObj out
                    \<and> (\<forall>k\<in>set derived_keys. k \<in> dom (map_of out))
                    \<and> (\<forall>kvs k. raw_results data ! i = JObj kvs \<and> k \<notin> set derived_keys
                          \<longrightarrow> map_of out k = map_of kvs k)))"
    if "processItunesResponse rt data = Inr r" for r
    using map_result_Inr [OF process_Inr [OF that]] frame by blast
  then show ?thesis
    using process_total [of data rt] by blast
qed

text \<open>
  Two records: the raw properties stay, the six derived properties are added, and the
  second record's own \<open>uniqueId\<close> is overwritten in place.
\<close>

theorem raw_fields_pass_through_witness:
  "map_option results (case processItunesResponse example_runtime example_data of
                         Inl e \<Rightarrow> None | Inr r \<Rightarrow> Some r)
     = Some [JObj [(str ''trackId'', JNum 42), (str ''trackName'', JStr (str ''X'')),
                   (str ''artistName'', JStr (str ''Adele'')),
                   (str ''previewUrl'', JStr (str ''https://a.test/p.m4a'')),
                   (str ''artworkUrl'', JUndefined), (str ''releaseDate'', JNull),
                   (str ''formattedPrice'', JStr (str ''N/A'')),
                   (str ''mediaType'', JStr (str ''unknown'')),
                   (str ''primaryGenre'', JStr (str ''Unknown'')),
                   (str ''uniqueId'', JNum 42)],
             JObj [(str ''collectionId'', JNum 7), (str ''uniqueId'', JNum 7),
                   (str ''artworkUrl'', JUndefined), (str ''releaseDate'', JNull),
                   (str ''formattedPrice'', JStr (str ''N/A'')),
                   (str ''mediaType'', JStr (str ''unknown'')),
                   (str ''primaryGenre'', JStr (str ''Unknown''))]]
   \<and> length (raw_results example_data) = 2"
proof -
  note t = raw_fields_pass_through [of example_data example_runtime]
  have "well_formed_body example_data"
    by code_simp
  with t obtain r where r: "processItunesResponse example_runtime example_data = Inr r"
    by blast
  have raw: "raw_results example_data
      = [JObj [(str ''trackId'', JNum 42), (str ''trackName'', JStr (str ''X'')),
               (str ''artistName'', JStr (str ''Adele'')),
               (str ''previewUrl'', JStr (str ''https://a.test/p.m4a''))],
         JObj [(str ''collectionId'', JNum 7), (str ''uniqueId'', JStr (str ''raw''))]]"
    by code_simp
  have l2: "length (raw_results example_data) = 2"
    by (simp add: raw)
  from t r have "length (results r) = length (raw_results example_data)"
    by blast
  with l2 have len: "length (results r) = 2"
    by simp
  from t r have each: "\<forall>i<length (raw_results example_data).
      enhance example_runtime (raw_results example_data ! i) = Inr (results r ! i)"
    by blast
  from each l2 have e0: "enhance example_runtime (raw_results example_data ! 0) = Inr (results r ! 0)"
    by simp
  from each l2 have e1: "enhance example_runtime (raw_results example_data ! 1) = Inr (results r ! 1)"
    by simp
  have n0: "enhance example_runtime (raw_results example_data ! 0)
      = Inr (JObj [(str ''trackId'', JNum 42), (str ''trackName'', JStr (str ''X'')),
                   (str ''artistName'', JStr (str ''Adele'')),
                   (str ''previewUrl'', JStr (str ''https://a.test/p.m4a'')),
                   (str ''artworkUrl'', JUndefined), (str ''releaseDate'', JNull),
                   (str ''formattedPrice'', JStr (str ''N/A'')),
                   (str ''mediaType'', JStr (str ''unknown'')),
                   (str ''primaryGenre'', JStr (str ''Unknown'')),
                   (str ''uniqueId'', JNum 42)])"
    by code_simp
  have n1: "enhance example_runtime (raw_results example_data ! 1)
      = Inr (JObj [(str ''collectionId'', JNum 7), (str ''uniqueId'', JNum 7),
                   (str ''artworkUrl'', JUndefined), (str ''releaseDate'', JNull),
                   (str ''formattedPrice'', JStr (str ''N/A'')),
                   (str ''mediaType'', JStr (str ''unknown'')),
                   (str ''primaryGenre'', JStr (str ''Unknown''))])"
    by code_simp
  from len obtain a b where ab: "results r = [a, b]"
    by (cases "results r"; cases "tl (results r)"; auto)
  with e0 e1 n0 n1 have "results r = [
             JObj [(str ''trackId'', JNum 42), (str ''trackName'', JStr (str ''X'')),
                   (str ''artistName'', JStr (str ''Adele'')),
                   (str ''previewUrl'', JStr (str ''https://a.test/p.m4a'')),
                   (str ''artworkUrl'', JUndefined), (str ''releaseDate'', JNull),
                   (str ''formattedPrice'', JStr (str ''N/A'')),
                   (str ''mediaType'', JStr (str ''unknown'')),
                   (str ''primaryGenre'', JStr (str ''Unknown'')),
                   (str ''uniqueId'', JNum 42)],
             JObj [(str ''collectionId'', JNum 7), (str ''uniqueId'', JNum 7),
                   (str ''artworkUrl'', JUndefined), (str ''releaseDate'', JNull),
                   (str ''formattedPrice'', JStr (str ''N/A'')),
                   (str ''mediaType'', JStr (str ''unknown'')),
                   (str ''primaryGenre'', JStr (str ''Unknown''))]]"
    by simp
  with r l2 show ?thesis by simp
qed

section \<open>The handler\<close>

lemma buildItunesUrl_valid: "violations_reported p = [] \<Longrightarrow> \<exists>url. buildItunesUrl p = Inr url"
  using valid_term [of p] buildSearchParams_valid [of p]
  by (auto simp add: buildItunesUrl_def)

lemma handle_error_cases:
  "(is_timeout err \<longrightarrow>
      status (handle_error rt err) = 408
      \<and> body_error (body (handle_error rt err)) = Some (str ''Request Timeout''))
   \<and> (\<not> is_timeout err \<and> error_response_status err = Some 403 \<longrightarrow>
      status (handle_error rt err) = 503
      \<and> body_error (body (handle_error rt err)) = Some (str ''Service Unavailable''))
   \<and> (\<not> is_timeout err
      \<and> (\<exists>s. error_response_status err = Some s \<and> 400 \<le> s \<and> s < 500 \<and> s \<noteq> 403) \<longrightarrow>
      status (handle_error rt err) = 400
      \<and> body_error (body (handle_error rt err)) = Some (str ''Bad Request''))
   \<and> (\<not> is_timeout err
      \<and> (\<forall>s. error_response_status err = Some s \<longrightarrow> s < 400 \<or> 500 \<le> s) \<longrightarrow>
      status (handle_error rt err) = 500
      \<and> body_error (body (handle_error rt err)) = Some (str ''Search Failed''))"
  by (cases "error_response_status err")
    (auto simp add: handle_error_def is_timeout_def body_error_def)

text \<open>
  Claim C1. For a request that passes validation the URL is built, and a failure of the
  upstream call is answered in this order of precedence: the error code ECONNABORTED or
  ETIMEDOUT by 408 \<open>Request Timeout\<close>; else an upstream status 403 by 503
  \<open>Service Unavailable\<close>; else another upstream status from 400 to 499 by 400
  \<open>Bad Request\<close>; else by 500 \<open>Search Failed\<close>. An exception raised while normalizing the
  upstream body is answered by 500 \<open>Search Failed\<close> as well.
\<close>

theorem upstream_failure_mapping:
  assumes "validateSearchParams p = Inr v" and "isValid v"
  shows "\<exists>url. buildItunesUrl p = Inr url
     \<and> (\<forall>err. axios_get url = Inl err \<longrightarrow>
          (is_timeout err \<longrightarrow>
             status (snd (search_handler rt axios_get p)) = 408
             \<and> body_error (body (snd (search_handler rt axios_get p))) = Some (str ''Request Timeout''))
        \<and> (\<not> is_timeout err \<and> error_response_status err = Some 403 \<longrightarrow>
             status (snd (search_handler rt axios_get p)) = 503
             \<and> body_error (body (snd (search_handler rt axios_get p)))
                 = Some (str ''Service Unavailable''))
        \<and> (\<not> is_timeout err
             \<and> (\<exists>s. error_response_status err = Some s \<and> 400 \<le> s \<and> s < 500 \<and> s \<noteq> 403) \<longrightarrow>
             status (snd (search_handler rt axios_get p)) = 400
             \<and> body_error (body (snd (search_handler rt axios_get p))) = Some (str ''Bad Request''))
        \<and> (\<not> is_timeout err
             \<and> (\<forall>s. error_response_status err = Some s \<longrightarrow> s < 400 \<or> 500 \<le> s) \<longrightarrow>
             status (snd (search_handler rt axios_get p)) = 500
             \<and> body_error (body (snd (search_handler rt axios_get p))) = Some (str ''Search Failed'')))
     \<and> (\<forall>data e. axios_get url = Inr data \<and> processItunesResponse rt data = Inl e \<longrightarrow>
          status (snd (search_handler rt axios_get p)) = 500
          \<and> body_error (body (snd (search_handler rt axios_get p))) = Some (str ''Search Failed''))"
proof -
  from assms have valid: "violations_reported p = []"
    by (auto simp add: validate_result)
  from buildItunesUrl_valid [OF valid] obtain url where url: "buildItunesUrl p = Inr url" ..
  have up: "snd (search_handler rt axios_get p) = handle_error rt err"
    if "axios_get url = Inl err" for err
    using that assms url by (simp add: search_handler_def)
  have norm: "snd (search_handler rt axios_get p) = handle_error rt (Native e)"
    if "axios_get url = Inr data" "processItunesResponse rt data = Inl e" for data e
    using that assms url by (simp add: search_handler_def)
  have native: "status (handle_error rt (Native e)) = 500
      \<and> body_error (body (handle_error rt (Native e))) = Some (str ''Search Failed'')" for e
    by (simp add: handle_error_def body_error_def)
  show ?thesis
    using url up norm native handle_error_cases [of _ rt]
    by (intro exI [of _ url]) (simp add: up norm)
qed

text \<open>A timeout, the statuses 403, 404 and 502, and a body whose \<open>results\<close> is a string.\<close>

theorem upstream_failure_mapping_witness:
  "status (snd (search_handler example_runtime
       (\<lambda>url. Inl (Upstream_error (Some (str ''ECONNABORTED'')) None))
       (no_params\<lparr>p_term := Some (str ''Adele'')\<rparr>))) = 408
   \<and> status (snd (search_handler example_runtime
       (\<lambda>url. Inl (Upstream_error (Some (str ''ERR_BAD_REQUEST'')) (Some 403)))
       (no_params\<lparr>p_term := Some (str ''Adele'')\<rparr>))) = 503
   \<and> status (snd (search_handler example_runtime
       (\<lambda>url. Inl (Upstream_error (Some (str ''ERR_BAD_REQUEST'')) (Some 404)))
       (no_params\<lparr>p_term := Some (str ''Adele'')\<rparr>))) = 400
   \<and> status (snd (search_handler example_runtime
       (\<lambda>url. Inl (Upstream_error (Some (str ''ERR_BAD_RESPONSE'')) (Some 502)))
       (no_params\<lparr>p_term := Some (str ''Adele'')\<rparr>))) = 500
   \<and> status (snd (search_handler example_runtime
       (\<lambda>url. Inr (JObj [(str ''results'', JStr (str ''none''))]))
       (no_params\<lparr>p_term := Some (str ''Adele'')\<rparr>))) = 500"
proof -
  let ?p = "no_params\<lparr>p_term := Some (str ''Adele'')\<rparr>"
  have v: "validateSearchParams ?p = Inr \<lparr>isValid = True, errors = []\<rparr>"
    by (simp add: validate_result rule_eval string_eval)
  have iv: "isValid \<lparr>isValid = True, errors = []\<rparr>" by simp
  note t = upstream_failure_mapping [OF v iv, of _ example_runtime]
  have c: "is_timeout (Upstream_error (Some (str ''ECONNABORTED'')) None)"
    "\<not> is_timeout (Upstream_error (Some (str ''ERR_BAD_REQUEST'')) s)"
    "\<not> is_timeout (Upstream_error (Some (str ''ERR_BAD_RESPONSE'')) s)" for s
    by (simp_all add: is_timeout_def str_def)
  have n: "processItunesResponse example_runtime (JObj [(str ''results'', JStr (str ''none''))])
      = Inl TypeError"
    by code_simp
  show ?thesis
    using t [of "\<lambda>url. Inl (Upstream_error (Some (str ''ECONNABORTED'')) None)"]
      t [of "\<lambda>url. Inl (Upstream_error (Some (str ''ERR_BAD_REQUEST'')) (Some 403))"]
      t [of "\<lambda>url. Inl (Upstream_error (Some (str ''ERR_BAD_REQUEST'')) (Some 404))"]
      t [of "\<lambda>url. Inl (Upstream_error (Some (str ''ERR_BAD_RESPONSE'')) (Some 502))"]
      t [of "\<lambda>url. Inr (JObj [(str ''results'', JStr (str ''none''))])"] c n
    by auto
qed

text \<open>
  Claim C9. The validator returns for every request. When its result is invalid the
  handler logs a warning and answers 400 \<open>Invalid Parameters\<close> with the full list of
  errors, and nothing else happens; whenever the upstream is called, validation has
  succeeded and the URL called is the one the builder made.
\<close>

theorem invalid_request_never_reaches_upstream:
  "\<exists>v. validateSearchParams p = Inr v \<and> errors v = violations_reported p
     \<and> (\<not> isValid v \<longrightarrow>
          search_handler rt axios_get p
            = ([Log_warn (str ''Invalid search parameters'')],
               \<lparr>status = 400,
                body = Failure (str ''Invalid Parameters'')
                         (str ''One or more search parameters are invalid'')
                         (Some (errors v)) (Some VALID_MEDIA_TYPES) None\<rparr>))
     \<and> (\<forall>url. Axios_get url \<in> set (fst (search_handler rt axios_get p)) \<longrightarrow>
          isValid v \<and> buildItunesUrl p = Inr url)"
proof (cases "violations_reported p = []")
  case False
  then show ?thesis
    by (simp add: validate_result search_handler_def)
next
  case True
  from buildItunesUrl_valid [OF True] obtain u where u: "buildItunesUrl p = Inr u" ..
  have "url = u" if "Axios_get url \<in> set (fst (search_handler rt axios_get p))" for url
    using that True u
    by (auto simp add: validate_result search_handler_def log_failed_def log_request_def
        split: sum.splits)
  with True u show ?thesis
    by (simp add: validate_result)
qed

text \<open>An empty term and the limit \<open>0\<close>: two errors, no upstream call.\<close>

theorem invalid_request_never_reaches_upstream_witness:
  "search_handler example_runtime (\<lambda>url. Inr (JObj []))
     (no_params\<lparr>p_term := Some [], p_limit := Some (str ''0'')\<rparr>)
   = ([Log_warn (str ''Invalid search parameters'')],
      \<lparr>status = 400,
       body = Failure (str ''Invalid Parameters'')
                (str ''One or more search parameters are invalid'')
                (Some [msg_term, msg_limit]) (Some VALID_MEDIA_TYPES) None\<rparr>)"
proof -
  let ?p = "no_params\<lparr>p_term := Some [], p_limit := Some (str ''0'')\<rparr>"
  have e: "violations_reported ?p = [msg_term, msg_limit]"
    by (simp add: rule_eval string_eval)
  from invalid_request_never_reaches_upstream [of ?p example_runtime "\<lambda>url. Inr (JObj [])"]
  obtain v where v: "validateSearchParams ?p = Inr v" "errors v = violations_reported ?p"
    and h: "\<not> isValid v \<longrightarrow>
          search_handler example_runtime (\<lambda>url. Inr (JObj [])) ?p
            = ([Log_warn (str ''Invalid search parameters'')],
               \<lparr>status = 400,
                body = Failure (str ''Invalid Parameters'')
                         (str ''One or more search parameters are invalid'')
                         (Some (errors v)) (Some VALID_MEDIA_TYPES) None\<rparr>)"
    by blast
  from v e have "\<not> isValid v"
    by (auto simp add: validate_result)
  with h v e show ?thesis by simp
qed

end
